theory Spec2Isabelle
  imports Complex_Main
begin

section \<open>JavaScript values\<close>

text \<open>
  The gateway of \<^verbatim>\<open>src/services/websocket.service.js\<close> handles messages that
  \<^verbatim>\<open>JSON.parse\<close> produced and builds the object literals it sends. One datatype holds
  both. A \<^verbatim>\<open>Date\<close> object is its epoch milliseconds; the text that
  \<^verbatim>\<open>toISOString()\<close> renders from an instant and the text that
  \<^verbatim>\<open>toString("base64")\<close> renders from bytes are kept as the instant and the bytes.
  An object is the list of its own properties in their order; a property is read with
  \<open>map_of\<close>.
\<close>

datatype jsval =
    JUndefined
  | JNull
  | JBool bool
  | JNum rat
  | JStr string
  | JDate int
  | JIso int
  | JBase64 "nat list"
  | JArr "jsval list"
  | JObj "(string \<times> jsval) list"

text \<open>Truthiness, as \<^verbatim>\<open>||\<close>, \<^verbatim>\<open>!\<close> and \<^verbatim>\<open>if\<close> test it.\<close>

fun truthy :: "jsval \<Rightarrow> bool" where
  "truthy JUndefined = False"
| "truthy JNull = False"
| "truthy (JBool b) = b"
| "truthy (JNum r) = (r \<noteq> 0)"
| "truthy (JStr s) = (s \<noteq> [])"
| "truthy (JBase64 bs) = (bs \<noteq> [])"
| "truthy _ = True"

definition js_or :: "jsval \<Rightarrow> jsval \<Rightarrow> jsval" where
  "js_or a b = (if truthy a then a else b)"

text \<open>\<^verbatim>\<open>message.k\<close> on the own properties of an object: \<^verbatim>\<open>undefined\<close> when absent.\<close>

definition js_get :: "(string \<times> jsval) list \<Rightarrow> string \<Rightarrow> jsval" where
  "js_get kvs k = (case map_of kvs k of None \<Rightarrow> JUndefined | Some v \<Rightarrow> v)"

text \<open>
  Writing a key of a JavaScript object or \<^verbatim>\<open>Map\<close>: an existing key keeps its place,
  a new key goes last.
\<close>

fun map_set :: "'k \<Rightarrow> 'v \<Rightarrow> ('k \<times> 'v) list \<Rightarrow> ('k \<times> 'v) list" where
  "map_set k v [] = [(k, v)]"
| "map_set k v ((k', v') # kvs) =
     (if k = k' then (k, v) # kvs else (k', v') # map_set k v kvs)"

definition map_delete :: "'k \<Rightarrow> ('k \<times> 'v) list \<Rightarrow> ('k \<times> 'v) list" where
  "map_delete k kvs = filter (\<lambda>(k', v). k' \<noteq> k) kvs"

text \<open>
  The object literal \<^verbatim>\<open>{ ...base, ...src }\<close>: every own property of \<open>src\<close> is written
  over \<open>base\<close>, in the order of \<open>src\<close>.
\<close>

definition spread :: "(string \<times> jsval) list \<Rightarrow> (string \<times> jsval) list \<Rightarrow> (string \<times> jsval) list" where
  "spread base src = fold (\<lambda>k. map_set k (js_get src k)) (map fst src) base"

text \<open>
  A template literal \<^verbatim>\<open>`${v}`\<close> converts \<open>v\<close> to a string. On a value that
  \<^verbatim>\<open>JSON.parse\<close> built this raises a TypeError exactly when an object with an own
  \<^verbatim>\<open>toString\<close> property is reached (an array joins its elements).
\<close>

fun template_ok :: "jsval \<Rightarrow> bool" where
  "template_ok (JObj kvs) = (map_of kvs ''toString'' = None)"
| "template_ok (JArr vs) = list_all template_ok vs"
| "template_ok _ = True"

text \<open>\<^verbatim>\<open>`cmd_${Date.now()}`\<close> prints the clock in decimal.\<close>

definition digit :: "nat \<Rightarrow> char" where
  "digit d = ''0123456789'' ! d"

fun digits :: "nat \<Rightarrow> string" where
  "digits n = (if n < 10 then [digit n] else digits (n div 10) @ [digit (n mod 10)])"

declare digits.simps [simp del]

definition decimal :: "int \<Rightarrow> string" where
  "decimal i = (if i < 0 then CHR ''-'' # digits (nat (- i)) else digits (nat i))"

text \<open>\<^verbatim>\<open>s.split(c)\<close> on a one-character separator, and \<^verbatim>\<open>a || b\<close> on optional strings.\<close>

fun split_on :: "char \<Rightarrow> string \<Rightarrow> string list" where
  "split_on c [] = [[]]"
| "split_on c (x # xs) =
     (if x = c then [] # split_on c xs
      else (case split_on c xs of [] \<Rightarrow> [[x]] | w # ws \<Rightarrow> (x # w) # ws))"

fun str_or :: "string option \<Rightarrow> string option \<Rightarrow> string option" where
  "str_or (Some (c # cs)) b = Some (c # cs)"
| "str_or a b = b"

text \<open>A call that may raise: the message of the error, or the value returned.\<close>

datatype 'a outcome = Throws string | Returns 'a

definition null_error :: string where
  "null_error = ''Cannot read properties of null''"

definition primitive_error :: string where
  "primitive_error = ''Cannot convert object to primitive value''"

section \<open>Sockets, the device status and the gateway state\<close>

text \<open>
  A \<^verbatim>\<open>ws\<close> socket on the server side is created open; the code tests
  \<^verbatim>\<open>readyState === WebSocket.OPEN\<close> only. \<open>sendError\<close> is the environment's choice
  of whether \<^verbatim>\<open>send\<close> raises on this socket (and with which message); \<open>outbox\<close> holds
  the objects that were serialised and sent, \<open>pings\<close> counts the ping frames sent.

  The library calls, as the service uses them: \<^verbatim>\<open>send\<close> raises or, on an open
  socket, transmits (on a socket that is not open nothing is transmitted);
  \<^verbatim>\<open>close\<close> starts the closing handshake of an open socket; \<^verbatim>\<open>terminate\<close>
  destroys the connection of a socket that is not closed yet; \<^verbatim>\<open>ping\<close> transmits on
  an open socket. The \<^verbatim>\<open>close\<close> event that follows a close or a terminate is an
  event of its own, delivered later.
\<close>

datatype ready_state = OPEN | CLOSING | CLOSED

record socket =
  readyState :: ready_state
  isAlive :: "bool option"
  sendError :: "string option"
  outbox :: "jsval list"
  pings :: nat
  terminated :: bool

definition new_socket :: socket where
  "new_socket = \<lparr> readyState = OPEN, isAlive = None, sendError = None, outbox = [],
                   pings = 0, terminated = False \<rparr>"

definition ws_send :: "jsval \<Rightarrow> socket \<Rightarrow> string + socket" where
  "ws_send msg sk =
     (case sendError sk of
        Some err \<Rightarrow> Inl err
      | None \<Rightarrow> Inr (if readyState sk = OPEN then sk\<lparr>outbox := outbox sk @ [msg]\<rparr> else sk))"

definition ws_close :: "socket \<Rightarrow> socket" where
  "ws_close sk = (if readyState sk = OPEN then sk\<lparr>readyState := CLOSING\<rparr> else sk)"

definition ws_terminate :: "socket \<Rightarrow> socket" where
  "ws_terminate sk =
     (if readyState sk = CLOSED then sk else sk\<lparr>readyState := CLOSING, terminated := True\<rparr>)"

definition ws_ping :: "socket \<Rightarrow> socket" where
  "ws_ping sk = (if readyState sk = OPEN then sk\<lparr>pings := Suc (pings sk)\<rparr> else sk)"

record esp32_status =
  connected :: bool
  lastSeen :: "int option"
  deviceInfo :: "(string \<times> jsval) list option"
  sensorTypes :: jsval
  isStreaming :: jsval

definition status_json :: "esp32_status \<Rightarrow> jsval" where
  "status_json st = JObj
     [(''connected'', JBool (connected st)),
      (''lastSeen'', (case lastSeen st of None \<Rightarrow> JNull | Some t \<Rightarrow> JDate t)),
      (''deviceInfo'', (case deviceInfo st of None \<Rightarrow> JNull | Some kvs \<Rightarrow> JObj kvs)),
      (''sensorTypes'', sensorTypes st),
      (''isStreaming'', isStreaming st)]"

datatype log_level = LogError | LogWarn

text \<open>
  The state of \<^verbatim>\<open>WebSocketService\<close>: the client \<^verbatim>\<open>Map\<close> in insertion order, the
  device slot, the status object, the socket objects by handle, and the two external
  collaborators as what they received: the documents handed to the Sensor Store's
  \<^verbatim>\<open>save\<close> (each with the error it raised, if any) and the lines given to
  \<^verbatim>\<open>logger.error\<close> and \<^verbatim>\<open>logger.warn\<close> (\<^verbatim>\<open>info\<close> and \<^verbatim>\<open>debug\<close> lines
  are not kept).
\<close>

record gateway =
  clients :: "(string \<times> nat) list"
  esp32Client :: "nat option"
  esp32Status :: esp32_status
  sockets :: "nat \<Rightarrow> socket"
  nextHandle :: nat
  saves :: "(jsval \<times> string option) list"
  logs :: "(log_level \<times> string) list"

definition constructor :: gateway where
  "constructor = \<lparr> clients = [], esp32Client = None,
     esp32Status = \<lparr> connected = False, lastSeen = None, deviceInfo = None,
                      sensorTypes = JArr [], isStreaming = JBool False \<rparr>,
     sockets = (\<lambda>h. new_socket), nextHandle = 0, saves = [], logs = [] \<rparr>"

definition logger :: "log_level \<Rightarrow> string \<Rightarrow> gateway \<Rightarrow> gateway" where
  "logger lvl line s = s\<lparr>logs := logs s @ [(lvl, line)]\<rparr>"

definition esp32Timeout :: int where
  "esp32Timeout = 60000"

section \<open>Registry operations\<close>

definition addClient :: "string \<Rightarrow> nat \<Rightarrow> gateway \<Rightarrow> gateway" where
  "addClient userId h s =
     (let s1 = (case map_of (clients s) userId of
                  None \<Rightarrow> s
                | Some old \<Rightarrow> s\<lparr>sockets := (sockets s)(old := ws_close (sockets s old))\<rparr>)
      in s1\<lparr>clients := map_set userId h (clients s1)\<rparr>)"

definition removeClient :: "string \<Rightarrow> gateway \<Rightarrow> gateway" where
  "removeClient userId s = s\<lparr>clients := map_delete userId (clients s)\<rparr>"

definition sendToESP32 :: "jsval \<Rightarrow> gateway \<Rightarrow> gateway \<times> bool" where
  "sendToESP32 message s =
     (case esp32Client s of
        None \<Rightarrow> (s, False)
      | Some d \<Rightarrow>
          if readyState (sockets s d) \<noteq> OPEN then (s, False)
          else (case ws_send message (sockets s d) of
                  Inr sk \<Rightarrow> (s\<lparr>sockets := (sockets s)(d := sk)\<rparr>, True)
                | Inl err \<Rightarrow> (logger LogError (''Error sending to ESP32: '' @ err) s, False)))"

definition sendToUser :: "string \<Rightarrow> jsval \<Rightarrow> gateway \<Rightarrow> gateway \<times> bool" where
  "sendToUser userId data s =
     (case map_of (clients s) userId of
        None \<Rightarrow> (s, False)
      | Some h \<Rightarrow>
          if readyState (sockets s h) \<noteq> OPEN then (s, False)
          else (case ws_send data (sockets s h) of
                  Inr sk \<Rightarrow> (s\<lparr>sockets := (sockets s)(h := sk)\<rparr>, True)
                | Inl err \<Rightarrow>
                    (removeClient userId
                       (logger LogError (''Send error to '' @ userId @ '': '' @ err) s), False)))"

text \<open>
  \<^verbatim>\<open>this.clients.forEach\<close> visits the keys in insertion order. The callback looks the
  key up again in the live map (\<open>sendToUser\<close>) and deletes no key but the one it is
  visiting, so the loop runs over the keys present at its start.
\<close>

fun broadcast_loop :: "string list \<Rightarrow> jsval \<Rightarrow> gateway \<Rightarrow> nat \<Rightarrow> gateway \<times> nat" where
  "broadcast_loop [] data s successCount = (s, successCount)"
| "broadcast_loop (userId # rest) data s successCount =
     (case sendToUser userId data s of
        (s', ok) \<Rightarrow> broadcast_loop rest data s' (if ok then Suc successCount else successCount))"

definition broadcastToClients :: "jsval \<Rightarrow> gateway \<Rightarrow> gateway \<times> nat" where
  "broadcastToClients data s = broadcast_loop (map fst (clients s)) data s 0"

section \<open>Handshake\<close>

text \<open>
  \<^verbatim>\<open>config/config\<close>, \<^verbatim>\<open>process.env\<close>, \<^verbatim>\<open>jsonwebtoken\<close> and the user model are
  not part of the gateway: they are parameters. \<open>jwtVerify\<close> is the Credential Verifier
  (the decoded payload, or the error it raises); \<open>findById\<close> gives the \<^verbatim>\<open>id\<close> of the
  user document found, \<open>None\<close> for \<^verbatim>\<open>null\<close>.
\<close>

record config =
  nodeEnv :: "string option"
  corsAllowedOrigins :: "string list option"
  serverHost :: string
  serverPort :: string
  jwtVerify :: "string \<Rightarrow> jsval outcome"
  findById :: "jsval \<Rightarrow> string option outcome"

text \<open>
  An upgrade request: \<open>url\<close> is what \<^verbatim>\<open>new URL(request.url, ...)\<close> parsed, the pathname
  and the \<^verbatim>\<open>token\<close> query parameter, or \<open>None\<close> when the constructor raises; the three headers
  are \<open>None\<close> when absent.
\<close>

record request =
  url :: "(string \<times> string option) option"
  origin :: "string option"
  secWebsocketProtocol :: "string option"
  authorization :: "string option"

definition allowedOrigins :: "config \<Rightarrow> string list" where
  "allowedOrigins cfg =
     (case corsAllowedOrigins cfg of None \<Rightarrow> [] | Some l \<Rightarrow> l) @
     [''http://'' @ serverHost cfg @ '':'' @ serverPort cfg, ''http://localhost:3000'']"

definition isOriginAllowed :: "config \<Rightarrow> string option \<Rightarrow> bool" where
  "isOriginAllowed cfg og =
     (case og of
        None \<Rightarrow> True
      | Some o' \<Rightarrow>
          if o' = [] \<or> nodeEnv cfg = Some ''development'' then True
          else o' \<in> set (allowedOrigins cfg) \<or> ''*'' \<in> set (allowedOrigins cfg))"

definition extractToken :: "request \<Rightarrow> string option" where
  "extractToken req =
     (case url req of
        None \<Rightarrow> None
      | Some (pathname, token) \<Rightarrow>
          str_or token
            (str_or (secWebsocketProtocol req)
               (case authorization req of
                  None \<Rightarrow> None
                | Some a \<Rightarrow> (case split_on CHR '' '' a of w # t # ws \<Rightarrow> Some t | _ \<Rightarrow> None))))"

text \<open>\<open>verifyClient\<close> returns \<^verbatim>\<open>{ error }\<close> (\<open>Inl\<close>) or \<^verbatim>\<open>{ user }\<close> (\<open>Inr\<close>).\<close>

definition verifyClient :: "config \<Rightarrow> request \<Rightarrow> gateway \<Rightarrow> (string + string option) \<times> gateway" where
  "verifyClient cfg req s =
     (let failed = (\<lambda>err. (Inl err, logger LogWarn (''Verification failed: '' @ err) s)) in
      if \<not> isOriginAllowed cfg (origin req) then (Inl ''Origin not allowed'', s)
      else (case extractToken req of
              None \<Rightarrow> (Inl ''No token provided'', s)
            | Some [] \<Rightarrow> (Inl ''No token provided'', s)
            | Some (c # cs) \<Rightarrow>
                (case jwtVerify cfg (c # cs) of
                   Throws err \<Rightarrow> failed err
                 | Returns decoded \<Rightarrow>
                     (let ident = (case decoded of JObj kvs \<Rightarrow> js_get kvs ''id'' | _ \<Rightarrow> JUndefined) in
                      if \<not> truthy ident then (Inl ''Invalid token payload'', s)
                      else (case findById cfg ident of
                              Throws err \<Rightarrow> failed err
                            | Returns user \<Rightarrow> (Inr user, s))))))"

datatype upgrade = Connection "string option" | Unauthorized | UpgradeFailed string

definition handleUpgrade :: "config \<Rightarrow> request \<Rightarrow> gateway \<Rightarrow> upgrade \<times> gateway" where
  "handleUpgrade cfg req s =
     (case url req of
        None \<Rightarrow> (UpgradeFailed ''Invalid URL'', logger LogError ''Upgrade error: Invalid URL'' s)
      | Some (pathname, token) \<Rightarrow>
          if pathname = ''/esp32'' then (Connection None, s)
          else (case verifyClient cfg req s of
                  (Inl err, s1) \<Rightarrow> (Unauthorized, logger LogWarn (''Rejected connection: '' @ err) s1)
                | (Inr None, s1) \<Rightarrow> (Unauthorized, logger LogWarn ''Rejected connection: undefined'' s1)
                | (Inr (Some user), s1) \<Rightarrow> (Connection (Some user), s1)))"

section \<open>Connection handlers\<close>

definition handleESP32Connection :: "nat \<Rightarrow> int \<Rightarrow> gateway \<Rightarrow> gateway" where
  "handleESP32Connection ws now s =
     (let s1 = (case esp32Client s of
                  None \<Rightarrow> s
                | Some old \<Rightarrow>
                    if readyState (sockets s old) = OPEN
                    then (logger LogWarn ''ESP32 already connected, closing previous connection'' s)
                           \<lparr>sockets := (sockets s)(old := ws_close (sockets s old))\<rparr>
                    else s);
          s2 = s1\<lparr>esp32Client := Some ws,
                  esp32Status := (esp32Status s1)\<lparr>connected := True, lastSeen := Some now\<rparr>\<rparr>;
          s3 = fst (sendToESP32
                      (JObj [(''type'', JStr ''connection-established''), (''serverTime'', JIso now)]) s2)
      in fst (broadcastToClients
                (JObj [(''type'', JStr ''esp32-status''), (''status'', JStr ''connected''),
                       (''timestamp'', JIso now)]) s3))"

text \<open>
  \<^verbatim>\<open>ws.send\<close> of the greeting is outside every \<^verbatim>\<open>try\<close>: when it raises, the
  handler is left before the client is registered (\<open>Inl\<close>).
\<close>

definition handleClientConnection :: "nat \<Rightarrow> string \<Rightarrow> int \<Rightarrow> gateway \<Rightarrow> string + gateway" where
  "handleClientConnection ws userId now s =
     (case ws_send (JObj [(''type'', JStr ''connection''), (''status'', JStr ''authenticated''),
                          (''userId'', JStr userId), (''esp32Status'', status_json (esp32Status s)),
                          (''timestamp'', JIso now)]) (sockets s ws) of
        Inl err \<Rightarrow> Inl err
      | Inr sk \<Rightarrow>
          (let s1 = addClient userId ws (s\<lparr>sockets := (sockets s)(ws := sk)\<rparr>)
           in Inr (s1\<lparr>sockets := (sockets s1)(ws := (sockets s1 ws)\<lparr>isAlive := Some True\<rparr>)\<rparr>)))"

text \<open>The listener of the server's \<^verbatim>\<open>connection\<close> event, on the new socket \<open>ws\<close>.\<close>

definition on_connection :: "request \<Rightarrow> string option \<Rightarrow> nat \<Rightarrow> int \<Rightarrow> gateway \<Rightarrow> string + gateway" where
  "on_connection req user ws now s =
     (case url req of
        None \<Rightarrow> Inl ''Invalid URL''
      | Some (pathname, token) \<Rightarrow>
          if pathname = ''/esp32'' then Inr (handleESP32Connection ws now s)
          else (case user of
                  Some (c # cs) \<Rightarrow> handleClientConnection ws (c # cs) now s
                | _ \<Rightarrow> Inr (s\<lparr>sockets := (sockets s)(ws := ws_close (sockets s ws))\<rparr>)))"

definition handleESP32Disconnect :: "int \<Rightarrow> gateway \<Rightarrow> gateway" where
  "handleESP32Disconnect now s =
     fst (broadcastToClients
            (JObj [(''type'', JStr ''esp32-status''), (''status'', JStr ''disconnected''),
                   (''timestamp'', JIso now)])
            (s\<lparr>esp32Client := None,
               esp32Status := (esp32Status s)\<lparr>connected := False, isStreaming := JBool False\<rparr>\<rparr>))"

section \<open>Device messages\<close>

text \<open>
  An inbound device frame is a \<^verbatim>\<open>Buffer\<close> (\<open>Binary\<close>, its bytes) or a text that
  \<^verbatim>\<open>JSON.parse\<close> is run on (\<open>Text\<close>, with what the parse returned or raised). The
  Sensor Store is external: \<open>saveError\<close> is the error that constructing and saving the
  document raises in this call, \<open>None\<close> when the save succeeds.
\<close>

datatype frame = Binary "nat list" | Text "jsval outcome"

text \<open>
  The document that \<open>saveSensorDataToDatabase\<close> gives to \<^verbatim>\<open>new SensorData\<close>. (The
  schema of that model is not part of the service; the reading is this document.)
\<close>

definition newSensorData :: "(string \<times> jsval) list \<Rightarrow> esp32_status \<Rightarrow> (string \<times> jsval) list" where
  "newSensorData sensorData st =
     (let info = (\<lambda>k. case deviceInfo st of None \<Rightarrow> JUndefined | Some kvs \<Rightarrow> js_get kvs k)
      in [(''deviceId'', js_get sensorData ''deviceId''),
          (''sensorType'', js_get sensorData ''sensorType''),
          (''data'', js_get sensorData ''data''),
          (''timestamp'', js_get sensorData ''timestamp''),
          (''metadata'', JObj [(''batteryLevel'', info ''batteryLevel''),
                               (''signalStrength'', info ''signalStrength'')])])"

definition saveSensorDataToDatabase :: "(string \<times> jsval) list \<Rightarrow> string option \<Rightarrow> gateway \<Rightarrow> gateway" where
  "saveSensorDataToDatabase sensorData saveError s =
     (let s1 = s\<lparr>saves := saves s @ [(JObj (newSensorData sensorData (esp32Status s)), saveError)]\<rparr>;
          failed = (\<lambda>err. logger LogError (''Failed to save sensor data to database: '' @ err) s1)
      in case saveError of
           Some err \<Rightarrow> failed err
         | None \<Rightarrow> if template_ok (js_get sensorData ''sensorType'') then s1
                    else failed primitive_error)"

text \<open>
  The object \<^verbatim>\<open>sensorData\<close> that \<open>handleSensorData\<close> builds from the message. The
  handler awaits the save and then broadcasts; no other listener is taken to run in
  between.
\<close>

definition sensorData :: "(string \<times> jsval) list \<Rightarrow> int \<Rightarrow> (string \<times> jsval) list" where
  "sensorData message now = spread
     [(''timestamp'', JDate now),
      (''sensorType'', js_or (js_get message ''sensorType'') (JStr ''unknown'')),
      (''data'', js_or (js_get message ''data'') (JObj [])),
      (''deviceId'', JStr ''esp32-main'')] message"

definition handleSensorData :: "(string \<times> jsval) list \<Rightarrow> string option \<Rightarrow> int \<Rightarrow> gateway \<Rightarrow> gateway" where
  "handleSensorData message saveError now s =
     (let s1 = saveSensorDataToDatabase (sensorData message now) saveError s;
          s2 = fst (broadcastToClients
                      (JObj (spread [(''type'', JStr ''sensor-data'')] (sensorData message now))) s1)
      in if template_ok (js_get (sensorData message now) ''sensorType'') then s2
         else logger LogError (''Error handling sensor data: '' @ primitive_error) s2)"

definition handleDeviceInfo :: "(string \<times> jsval) list \<Rightarrow> int \<Rightarrow> gateway \<Rightarrow> gateway" where
  "handleDeviceInfo message now s =
     (let info =
            [(''deviceName'', js_or (js_get message ''deviceName'') (JStr ''ESP32-Sensor'')),
             (''firmwareVersion'', js_or (js_get message ''firmwareVersion'') (JStr ''unknown'')),
             (''capabilities'', js_or (js_get message ''capabilities'') (JArr [])),
             (''sensorTypes'', js_or (js_get message ''sensorTypes'') (JArr [])),
             (''batteryLevel'', js_get message ''batteryLevel''),
             (''signalStrength'', js_get message ''signalStrength'')];
          s1 = s\<lparr>esp32Status := (esp32Status s)
                  \<lparr>deviceInfo := Some info,
                   sensorTypes := js_or (js_get message ''sensorTypes'') (JArr [])\<rparr>\<rparr>
      in fst (broadcastToClients
                (JObj [(''type'', JStr ''esp32-device-info''), (''deviceInfo'', JObj info),
                       (''timestamp'', JIso now)]) s1))"

text \<open>
  The \<^verbatim>\<open>logger.info\<close> line of \<open>handleStatusUpdate\<close> interpolates the whole message
  before the broadcast; when that raises, the status is already written and the
  broadcast is skipped.
\<close>

definition handleStatusUpdate :: "(string \<times> jsval) list \<Rightarrow> int \<Rightarrow> gateway \<Rightarrow> gateway" where
  "handleStatusUpdate message now s =
     (let old = (case deviceInfo (esp32Status s) of None \<Rightarrow> [] | Some kvs \<Rightarrow> kvs);
          info = map_set ''status'' (js_or (js_get message ''status'') (JStr ''online''))
                   (map_set ''signalStrength'' (js_get message ''signalStrength'')
                      (map_set ''batteryLevel'' (js_get message ''batteryLevel'') old));
          s1 = s\<lparr>esp32Status := (esp32Status s)
                  \<lparr>isStreaming := js_or (js_get message ''isStreaming'') (JBool False),
                   deviceInfo := Some info\<rparr>\<rparr>
      in if \<not> template_ok (JObj message)
         then logger LogError (''Error handling status update: '' @ primitive_error) s1
         else fst (broadcastToClients
                     (JObj [(''type'', JStr ''esp32-status-update''),
                            (''status'', status_json (esp32Status s1)),
                            (''timestamp'', JIso now)]) s1))"

definition handleESP32Message :: "frame \<Rightarrow> string option \<Rightarrow> int \<Rightarrow> gateway \<Rightarrow> gateway" where
  "handleESP32Message data saveError now s =
     (let s0 = s\<lparr>esp32Status := (esp32Status s)\<lparr>lastSeen := Some now\<rparr>\<rparr>;
          failed = (\<lambda>err. logger LogError (''ESP32 message handling error: '' @ err) s0)
      in case data of
           Binary bytes \<Rightarrow>
             fst (broadcastToClients
                    (JObj [(''type'', JStr ''audio-data''), (''timestamp'', JIso now),
                           (''dataSize'', JNum (of_nat (length bytes))),
                           (''data'', JBase64 bytes)]) s0)
         | Text (Throws err) \<Rightarrow> failed err
         | Text (Returns parsed) \<Rightarrow>
             (case parsed of
                JNull \<Rightarrow> failed null_error
              | JUndefined \<Rightarrow> failed null_error
              | JObj message \<Rightarrow>
                  (let ty = js_get message ''type'' in
                   if \<not> template_ok ty then failed primitive_error
                   else if ty = JStr ''device-info'' then handleDeviceInfo message now s0
                   else if ty = JStr ''sensor-data'' then handleSensorData message saveError now s0
                   else if ty = JStr ''status-update'' then handleStatusUpdate message now s0
                   else if ty = JStr ''ping''
                   then fst (sendToESP32 (JObj [(''type'', JStr ''pong''),
                                                (''timestamp'', JNum (of_int now))]) s0)
                   else s0)
              | _ \<Rightarrow> s0))"

section \<open>Client messages\<close>

text \<open>
  \<open>found\<close> is what the history query on the Sensor Store
  (\<^verbatim>\<open>SensorData.find(query).sort(...).limit(limit)\<close>) returns or raises in this call.
\<close>

definition handleGetSensorData :: "string \<Rightarrow> (string \<times> jsval) list \<Rightarrow> jsval outcome \<Rightarrow> gateway \<Rightarrow> gateway" where
  "handleGetSensorData userId message found s =
     (let limit = (case js_get message ''limit'' of JUndefined \<Rightarrow> JNum 100 | v \<Rightarrow> v)
      in case found of
           Returns docs \<Rightarrow>
             fst (sendToUser userId
                    (JObj [(''type'', JStr ''sensor-data-history''), (''data'', docs),
                           (''query'', JObj [(''sensorType'', js_get message ''sensorType''),
                                             (''limit'', limit),
                                             (''startDate'', js_get message ''startDate''),
                                             (''endDate'', js_get message ''endDate'')])]) s)
         | Throws err \<Rightarrow>
             fst (sendToUser userId
                    (JObj [(''type'', JStr ''error''),
                           (''message'', JStr ''Failed to retrieve sensor data'')])
                    (logger LogError (''Error getting sensor data: '' @ err) s)))"

definition handleControlESP32 :: "string \<Rightarrow> (string \<times> jsval) list \<Rightarrow> int \<Rightarrow> gateway \<Rightarrow> gateway" where
  "handleControlESP32 userId message now s =
     (let command = js_get message ''command'';
          parameters = js_get message ''parameters'';
          notConnected = fst (sendToUser userId
                                (JObj [(''type'', JStr ''error''),
                                       (''message'', JStr ''ESP32 not connected'')]) s)
      in case esp32Client s of
           None \<Rightarrow> notConnected
         | Some d \<Rightarrow>
             if readyState (sockets s d) \<noteq> OPEN then notConnected
             else (let s1 = fst (sendToESP32
                                   (JObj [(''type'', JStr ''command''), (''command'', command),
                                          (''parameters'', js_or parameters (JObj [])),
                                          (''requestId'', JStr (''cmd_'' @ decimal now)),
                                          (''fromUserId'', JStr userId)]) s);
                       s2 = fst (sendToUser userId
                                   (JObj [(''type'', JStr ''command-sent''), (''command'', command),
                                          (''timestamp'', JIso now)]) s1)
                   in if template_ok command then s2
                      else logger LogError (''Error controlling ESP32: '' @ primitive_error) s2))"

definition handleClientMessage :: "nat \<Rightarrow> string \<Rightarrow> jsval outcome \<Rightarrow> jsval outcome \<Rightarrow> int \<Rightarrow> gateway \<Rightarrow> gateway" where
  "handleClientMessage ws userId data found now s =
     (let failed = (\<lambda>err. logger LogError (''Client message handling error: '' @ err) s)
      in case data of
           Throws err \<Rightarrow> failed err
         | Returns parsed \<Rightarrow>
             (case parsed of
                JNull \<Rightarrow> failed null_error
              | JUndefined \<Rightarrow> failed null_error
              | JObj message \<Rightarrow>
                  (let ty = js_get message ''type'' in
                   if \<not> template_ok ty then failed primitive_error
                   else if ty = JStr ''ping''
                   then (case ws_send (JObj [(''type'', JStr ''pong''),
                                             (''timestamp'', JNum (of_int now))]) (sockets s ws) of
                           Inl err \<Rightarrow> failed err
                         | Inr sk \<Rightarrow> s\<lparr>sockets := (sockets s)(ws := sk)\<rparr>)
                   else if ty = JStr ''get-esp32-status''
                   then fst (sendToUser userId
                               (JObj [(''type'', JStr ''esp32-status-response''),
                                      (''status'', status_json (esp32Status s))]) s)
                   else if ty = JStr ''get-sensor-data'' then handleGetSensorData userId message found s
                   else if ty = JStr ''control-esp32'' then handleControlESP32 userId message now s
                   else s)
              | _ \<Rightarrow> s))"

section \<open>Liveness supervision\<close>

definition checkESP32Status :: "int \<Rightarrow> gateway \<Rightarrow> gateway" where
  "checkESP32Status now s =
     (if connected (esp32Status s) then
        (case lastSeen (esp32Status s) of
           None \<Rightarrow> s
         | Some seen \<Rightarrow>
             if now - seen > esp32Timeout
             then fst (broadcastToClients
                         (JObj [(''type'', JStr ''esp32-status''), (''status'', JStr ''offline''),
                                (''lastSeen'', JDate seen), (''timestamp'', JIso now)])
                         ((logger LogWarn ''ESP32 appears to be offline (timeout)'' s)
                            \<lparr>esp32Status := (esp32Status s)\<lparr>connected := False\<rparr>\<rparr>))
             else s)
      else s)"

text \<open>
  The callback of the heartbeat timer. \<^verbatim>\<open>terminate\<close> changes no entry of the map
  while the loop runs: the removal is done by the \<^verbatim>\<open>close\<close> listener, later.
\<close>

fun heartbeat_loop :: "(string \<times> nat) list \<Rightarrow> gateway \<Rightarrow> gateway" where
  "heartbeat_loop [] s = s"
| "heartbeat_loop ((userId, ws) # rest) s =
     heartbeat_loop rest
       (if isAlive (sockets s ws) = Some False
        then (logger LogWarn (''Terminating unresponsive client: '' @ userId) s)
               \<lparr>sockets := (sockets s)(ws := ws_terminate (sockets s ws))\<rparr>
        else s\<lparr>sockets := (sockets s)(ws := ws_ping ((sockets s ws)\<lparr>isAlive := Some False\<rparr>))\<rparr>)"

definition heartbeat :: "gateway \<Rightarrow> gateway" where
  "heartbeat s =
     (let s1 = heartbeat_loop (clients s) s
      in case esp32Client s1 of
           None \<Rightarrow> s1
         | Some d \<Rightarrow>
             if readyState (sockets s1 d) = OPEN
             then s1\<lparr>sockets := (sockets s1)(d := ws_ping (sockets s1 d))\<rparr>
             else s1)"

section \<open>Events and reachable states\<close>

text \<open>
  Every listener the service installs is one event; the clock value a listener reads
  comes with the event. \<open>Transport\<close> is the environment changing a socket (the peer
  closing, the transport starting to fail). An upgrade that is accepted creates the
  socket \<open>nextHandle\<close> and runs the \<^verbatim>\<open>connection\<close> listener on it. An event
  is not tied to a socket that has its listener installed, so the reachable states
  below include every state the service can be in.
\<close>

datatype event =
    Upgrade request int
  | DeviceMessage frame "string option" int
  | DevicePong int
  | DeviceClose nat int
  | DeviceError string int
  | ClientMessage nat string "jsval outcome" "jsval outcome" int
  | ClientPong nat
  | ClientClose nat string
  | ClientError string string
  | HeartbeatTick
  | StatusCheckTick int
  | Transport nat ready_state "string option"

definition new_connection :: "gateway \<Rightarrow> gateway" where
  "new_connection s =
     s\<lparr>sockets := (sockets s)(nextHandle s := new_socket), nextHandle := Suc (nextHandle s)\<rparr>"

fun fire :: "config \<Rightarrow> event \<Rightarrow> gateway \<Rightarrow> string + gateway" where
  "fire cfg (Upgrade req now) s =
     (case handleUpgrade cfg req s of
        (Connection user, s1) \<Rightarrow> on_connection req user (nextHandle s1) now (new_connection s1)
      | (Unauthorized, s1) \<Rightarrow> Inr s1
      | (UpgradeFailed err, s1) \<Rightarrow> Inr (logger LogError (''Upgrade failed: '' @ err) s1))"
| "fire cfg (DeviceMessage data saveError now) s = Inr (handleESP32Message data saveError now s)"
| "fire cfg (DevicePong now) s = Inr (s\<lparr>esp32Status := (esp32Status s)\<lparr>lastSeen := Some now\<rparr>\<rparr>)"
| "fire cfg (DeviceClose ws now) s =
     Inr (handleESP32Disconnect now
            (s\<lparr>sockets := (sockets s)(ws := (sockets s ws)\<lparr>readyState := CLOSED\<rparr>)\<rparr>))"
| "fire cfg (DeviceError err now) s =
     Inr (handleESP32Disconnect now (logger LogError (''ESP32 error: '' @ err) s))"
| "fire cfg (ClientMessage ws userId data found now) s =
     Inr (handleClientMessage ws userId data found now s)"
| "fire cfg (ClientPong ws) s =
     Inr (s\<lparr>sockets := (sockets s)(ws := (sockets s ws)\<lparr>isAlive := Some True\<rparr>)\<rparr>)"
| "fire cfg (ClientClose ws userId) s =
     Inr (removeClient userId
            (s\<lparr>sockets := (sockets s)(ws := (sockets s ws)\<lparr>readyState := CLOSED\<rparr>)\<rparr>))"
| "fire cfg (ClientError err userId) s =
     Inr (removeClient userId (logger LogError (''Client error '' @ userId @ '': '' @ err) s))"
| "fire cfg HeartbeatTick s = Inr (heartbeat s)"
| "fire cfg (StatusCheckTick now) s = Inr (checkESP32Status now s)"
| "fire cfg (Transport ws rs err) s =
     Inr (s\<lparr>sockets := (sockets s)(ws := (sockets s ws)\<lparr>readyState := rs, sendError := err\<rparr>)\<rparr>)"

inductive reachable :: "config \<Rightarrow> gateway \<Rightarrow> bool" for cfg :: config where
  start: "reachable cfg constructor"
| step: "reachable cfg s \<Longrightarrow> fire cfg e s = Inr s' \<Longrightarrow> reachable cfg s'"

text \<open>A run of events; it stops at the first listener that raises.\<close>

fun run :: "config \<Rightarrow> event list \<Rightarrow> gateway \<Rightarrow> string + gateway" where
  "run cfg [] s = Inr s"
| "run cfg (e # es) s = (case fire cfg e s of Inl err \<Rightarrow> Inl err | Inr s' \<Rightarrow> run cfg es s')"

section \<open>Predicates used in the statements\<close>

text \<open>
  A send on socket \<open>h\<close> is delivered when the socket is open and \<^verbatim>\<open>send\<close> does not
  raise; it fails when the socket is open and \<^verbatim>\<open>send\<close> raises. (On a socket that is
  not open \<open>sendToUser\<close> attempts nothing.)
\<close>

definition deliverable :: "gateway \<Rightarrow> nat \<Rightarrow> bool" where
  "deliverable s h = (readyState (sockets s h) = OPEN \<and> sendError (sockets s h) = None)"

definition send_fails :: "gateway \<Rightarrow> nat \<Rightarrow> bool" where
  "send_fails s h = (readyState (sockets s h) = OPEN \<and> sendError (sockets s h) \<noteq> None)"

text \<open>The registry as a \<^verbatim>\<open>Map\<close> of distinct sockets: no key twice, no socket under two keys.\<close>

definition registry_ok :: "gateway \<Rightarrow> bool" where
  "registry_ok s = (distinct (map fst (clients s)) \<and> distinct (map snd (clients s)))"

text \<open>
  Handles are given out in order: a registered handle is below \<open>nextHandle\<close>, and the
  device's handle is no client's.
\<close>

definition registry_inv :: "gateway \<Rightarrow> bool" where
  "registry_inv s =
     (registry_ok s \<and> (\<forall>h \<in> snd ` set (clients s). h < nextHandle s) \<and>
      (\<forall>d. esp32Client s = Some d \<longrightarrow> d < nextHandle s \<and> d \<notin> snd ` set (clients s)))"

text \<open>A step that registers nothing: clients may leave, the device slot may be cleared.\<close>

definition quiet :: "gateway \<Rightarrow> gateway \<Rightarrow> bool" where
  "quiet s s' =
     ((\<exists>P. clients s' = filter P (clients s)) \<and> nextHandle s' = nextHandle s \<and>
      (esp32Client s' = esp32Client s \<or> esp32Client s' = None))"

text \<open>The documents the store kept.\<close>

definition persisted :: "gateway \<Rightarrow> jsval list" where
  "persisted s = map fst (filter (\<lambda>(doc, err). err = None) (saves s))"

text \<open>An upgrade on the device path, the one event that registers a device.\<close>

fun registers_device :: "event \<Rightarrow> bool" where
  "registers_device (Upgrade req now) =
     (case url req of None \<Rightarrow> False | Some (pathname, token) \<Rightarrow> pathname = ''/esp32'')"
| "registers_device _ = False"

text \<open>What one heartbeat cycle does to the socket of a registered client.\<close>

definition beat :: "socket \<Rightarrow> socket" where
  "beat sk = (if isAlive sk = Some False then ws_terminate sk
              else ws_ping (sk\<lparr>isAlive := Some False\<rparr>))"

section \<open>Concrete states\<close>

text \<open>Three registered clients; the send on the second one's socket raises.\<close>

definition three_clients :: gateway where
  "three_clients = constructor
     \<lparr>clients := [(''ann'', 0), (''bob'', 1), (''cy'', 2)],
      sockets := (\<lambda>h. if h = 1 then new_socket\<lparr>sendError := Some ''EPIPE''\<rparr> else new_socket),
      nextHandle := 3\<rparr>"

text \<open>A production configuration with one known token, and upgrade requests.\<close>

definition production :: config where
  "production = \<lparr> nodeEnv = Some ''production'', corsAllowedOrigins = Some [''https://app.example''],
     serverHost = ''localhost'', serverPort = ''5000'',
     jwtVerify = (\<lambda>token. if token = ''good'' then Returns (JObj [(''id'', JStr ''ann'')])
                            else Throws ''jwt malformed''),
     findById = (\<lambda>ident. case ident of JStr u \<Rightarrow> Returns (Some u) | _ \<Rightarrow> Returns None) \<rparr>"

definition device_request :: request where
  "device_request = \<lparr> url = Some (''/esp32'', None), origin = None,
     secWebsocketProtocol = None, authorization = None \<rparr>"

definition foreign_device_request :: request where
  "foreign_device_request = device_request\<lparr>origin := Some ''http://evil.example''\<rparr>"

definition client_request :: request where
  "client_request = \<lparr> url = Some (''/ws'', Some ''good''), origin = None,
     secWebsocketProtocol = None, authorization = None \<rparr>"

text \<open>The device connected at time 1000 on socket 0; then a client on socket 1.\<close>

definition device_online :: gateway where
  "device_online =
     handleESP32Connection 0 1000 (new_connection constructor)"

definition device_and_client :: gateway where
  "device_and_client =
     (case handleClientConnection 1 ''ann'' 1500 (new_connection device_online) of
        Inr s \<Rightarrow> s | Inl err \<Rightarrow> device_online)"

text \<open>
  A second device connects at time 2000 on socket 1, which closes socket 0; the close
  event of socket 0 arrives at 2100; a third device connects at 3000 on socket 2.
\<close>

definition device_swapped :: gateway where
  "device_swapped = handleESP32Connection 1 2000 (new_connection device_online)"

definition device_dropped :: gateway where
  "device_dropped =
     handleESP32Disconnect 2100
       (device_swapped\<lparr>sockets := (sockets device_swapped)
          (0 := (sockets device_swapped 0)\<lparr>readyState := CLOSED\<rparr>)\<rparr>)"

definition two_devices :: gateway where
  "two_devices = handleESP32Connection 2 3000 (new_connection device_dropped)"

definition marked_offline :: gateway where
  "marked_offline = checkESP32Status 70000 device_online"

text \<open>Two registered clients; the first answered the last probe, the second did not.\<close>

definition two_clients :: gateway where
  "two_clients = constructor
     \<lparr>clients := [(''ann'', 0), (''bob'', 1)],
      sockets := (\<lambda>h. if h = 0 then new_socket\<lparr>isAlive := Some True\<rparr>
                       else new_socket\<lparr>isAlive := Some False\<rparr>),
      nextHandle := 2\<rparr>"

text \<open>Device messages used below.\<close>

definition streaming_update :: "(string \<times> jsval) list" where
  "streaming_update = [(''type'', JStr ''status-update''), (''isStreaming'', JBool True)]"

definition temp_reading :: "(string \<times> jsval) list" where
  "temp_reading = [(''type'', JStr ''sensor-data''), (''sensorType'', JStr ''temp''),
                   (''data'', JObj [(''v'', JNum 21)])]"

definition stamped_reading :: "(string \<times> jsval) list" where
  "stamped_reading = temp_reading @ [(''timestamp'', JNum 5)]"

definition relabelled_reading :: "(string \<times> jsval) list" where
  "relabelled_reading = stamped_reading @ [(''deviceId'', JStr ''probe-7'')]"


text \<open>
  The device reports that it streams at time 2000 and is then silent until the staleness
  check of time 70000.
\<close>

definition streaming_offline :: gateway where
  "streaming_offline =
     checkESP32Status 70000
       (handleESP32Message (Text (Returns (JObj streaming_update))) None 2000 device_online)"

text \<open>Inbound device traffic after the device was marked offline.\<close>

definition traffic :: "event list" where
  "traffic = [DeviceMessage (Binary [1, 2]) None 70001,
              DeviceMessage (Text (Returns (JObj temp_reading))) None 70002,
              DevicePong 70003]"

definition after_traffic :: gateway where
  "after_traffic = (case run production traffic marked_offline of
                      Inr s \<Rightarrow> s | Inl err \<Rightarrow> marked_offline)"

section \<open>What the send operations leave unchanged\<close>


lemma broadcast_loop_Cons:
  "broadcast_loop (u # us) d s n =
     broadcast_loop us d (fst (sendToUser u d s)) (if snd (sendToUser u d s) then Suc n else n)"
  by (simp split: prod.splits)

lemma sendToUser_frame [simp]:
  "esp32Status (fst (sendToUser u d s)) = esp32Status s"
  "esp32Client (fst (sendToUser u d s)) = esp32Client s"
  "saves (fst (sendToUser u d s)) = saves s"
  "nextHandle (fst (sendToUser u d s)) = nextHandle s"
  by (auto simp: sendToUser_def removeClient_def logger_def ws_send_def
      split: option.splits sum.splits)

lemma sendToUser_socket [simp]:
  "readyState (sockets (fst (sendToUser u d s)) h) = readyState (sockets s h)"
  "sendError (sockets (fst (sendToUser u d s)) h) = sendError (sockets s h)"
  "isAlive (sockets (fst (sendToUser u d s)) h) = isAlive (sockets s h)"
  "pings (sockets (fst (sendToUser u d s)) h) = pings (sockets s h)"
  "terminated (sockets (fst (sendToUser u d s)) h) = terminated (sockets s h)"
  by (auto simp: sendToUser_def removeClient_def logger_def ws_send_def
      split: option.splits sum.splits)

lemma broadcast_loop_frame [simp]:
  "esp32Status (fst (broadcast_loop us d s n)) = esp32Status s"
  "esp32Client (fst (broadcast_loop us d s n)) = esp32Client s"
  "saves (fst (broadcast_loop us d s n)) = saves s"
  "nextHandle (fst (broadcast_loop us d s n)) = nextHandle s"
  by (induction us arbitrary: s n) (simp_all add: broadcast_loop_Cons del: broadcast_loop.simps(2))

lemma broadcast_loop_socket [simp]:
  "readyState (sockets (fst (broadcast_loop us d s n)) h) = readyState (sockets s h)"
  "sendError (sockets (fst (broadcast_loop us d s n)) h) = sendError (sockets s h)"
  "isAlive (sockets (fst (broadcast_loop us d s n)) h) = isAlive (sockets s h)"
  "pings (sockets (fst (broadcast_loop us d s n)) h) = pings (sockets s h)"
  "terminated (sockets (fst (broadcast_loop us d s n)) h) = terminated (sockets s h)"
  by (induction us arbitrary: s n) (simp_all add: broadcast_loop_Cons del: broadcast_loop.simps(2))

lemma map_of_map_delete: "map_of (map_delete u cs) k = (if k = u then None else map_of cs k)"
  by (induction cs) (auto simp: map_delete_def)

lemma filter_map_delete:
  "filter P (map_delete u cs) = filter (\<lambda>(k, h). k \<noteq> u \<and> P (k, h)) cs"
  by (induction cs) (auto simp: map_delete_def)

text \<open>What one send does.\<close>

lemma sendToUser_clients:
  "clients (fst (sendToUser u d s)) =
     (if (\<exists>h. map_of (clients s) u = Some h \<and> send_fails s h)
      then map_delete u (clients s) else clients s)"
  by (auto simp: sendToUser_def removeClient_def logger_def ws_send_def send_fails_def
      split: option.splits sum.splits)

lemma sendToUser_ok:
  "snd (sendToUser u d s) = (\<exists>h. map_of (clients s) u = Some h \<and> deliverable s h)"
  by (auto simp: sendToUser_def removeClient_def logger_def ws_send_def deliverable_def
      split: option.splits sum.splits)

lemma sendToUser_outbox:
  "outbox (sockets (fst (sendToUser u d s)) h) =
     outbox (sockets s h) @ (if map_of (clients s) u = Some h \<and> deliverable s h then [d] else [])"
  by (auto simp: sendToUser_def removeClient_def logger_def ws_send_def deliverable_def
      split: option.splits sum.splits)

lemma sendToUser_deliverable [simp]:
  "deliverable (fst (sendToUser u d s)) h = deliverable s h"
  "send_fails (fst (sendToUser u d s)) h = send_fails s h"
  by (simp_all add: deliverable_def send_fails_def)

lemma deliverable_not_fails: "deliverable s h \<Longrightarrow> \<not> send_fails s h"
  by (simp add: deliverable_def send_fails_def)

lemma sendToUser_recipient:
  "(map_of (clients (fst (sendToUser u d s))) k = Some h \<and> deliverable s h) =
   (map_of (clients s) k = Some h \<and> deliverable s h)"
  by (auto simp: sendToUser_clients map_of_map_delete dest: deliverable_not_fails)

lemma broadcast_loop_clients:
  "clients (fst (broadcast_loop us d s n)) =
     filter (\<lambda>(k, h). \<not> (k \<in> set us \<and> (\<exists>h'. map_of (clients s) k = Some h' \<and> send_fails s h')))
       (clients s)"
proof (induction us arbitrary: s n)
  case Nil
  then show ?case by simp
next
  case (Cons u us)
  show ?case
    unfolding broadcast_loop_Cons Cons.IH
    by (auto simp: sendToUser_clients map_of_map_delete filter_map_delete split: if_splits intro!: filter_cong)
qed

lemma broadcast_loop_count:
  "snd (broadcast_loop us d s n) =
     n + length (filter (\<lambda>k. \<exists>h. map_of (clients s) k = Some h \<and> deliverable s h) us)"
proof (induction us arbitrary: s n)
  case Nil
  then show ?case by simp
next
  case (Cons u us)
  show ?case
    unfolding broadcast_loop_Cons Cons.IH
    by (simp add: sendToUser_ok sendToUser_recipient)
qed

lemma broadcast_loop_outbox:
  "outbox (sockets (fst (broadcast_loop us d s n)) h) =
     outbox (sockets s h) @
     replicate (length (filter (\<lambda>k. map_of (clients s) k = Some h \<and> deliverable s h) us)) d"
proof (induction us arbitrary: s n)
  case Nil
  then show ?case by simp
next
  case (Cons u us)
  show ?case
    unfolding broadcast_loop_Cons Cons.IH
    by (simp add: sendToUser_outbox sendToUser_recipient replicate_app_Cons_same)
qed


lemma one_key_per_socket:
  "distinct (map snd cs) \<Longrightarrow> (k, h) \<in> set cs \<Longrightarrow> (u, h) \<in> set cs \<Longrightarrow> k = u"
  by (induction cs) (auto simp: image_iff)

lemma recipients_once:
  assumes "distinct (map fst cs)" "distinct (map snd cs)" "(u, h) \<in> set cs"
  shows "length (filter (\<lambda>k. map_of cs k = Some h) (map fst cs)) = 1"
proof -
  have "{k. map_of cs k = Some h} \<inter> set (map fst cs) = {u}"
    using assms by (force dest: map_of_SomeD one_key_per_socket)
  then show ?thesis
    using distinct_length_filter [OF assms(1), of "\<lambda>k. map_of cs k = Some h"]
    by (simp only: card.empty card_insert_if finite.emptyI empty_iff if_False)
qed

section \<open>Broadcast\<close>

text \<open>
  Claim C5. A broadcast over a registry of distinct keys and sockets removes exactly the
  clients whose send raised and keeps the others in order, appends the message to the
  outbox of every client whose socket is open and does not raise, wherever the failing
  ones stand in the iteration, and returns the number of those deliveries. A raised send
  is a value that \<open>sendToUser\<close> consumes: \<open>broadcastToClients\<close> has no error result.
\<close>

theorem broadcast_partial_failure:
  "registry_ok s \<Longrightarrow>
     (case broadcastToClients data s of
        (s', successCount) \<Rightarrow>
          clients s' = filter (\<lambda>(userId, h). \<not> send_fails s h) (clients s) \<and>
          successCount = length (filter (\<lambda>(userId, h). deliverable s h) (clients s)) \<and>
          (\<forall>(userId, h) \<in> set (clients s).
             deliverable s h \<longrightarrow> outbox (sockets s' h) = outbox (sockets s h) @ [data]))"
proof -
  assume ok: "registry_ok s"
  let ?cs = "clients s"
  let ?r = "broadcast_loop (map fst ?cs) data s 0"
  have keys: "distinct (map fst ?cs)" and socks: "distinct (map snd ?cs)"
    using ok by (simp_all add: registry_ok_def)
  have look: "map_of ?cs k = Some h" if "(k, h) \<in> set ?cs" for k h
    using keys that by simp
  have c1: "clients (fst ?r) = filter (\<lambda>(userId, h). \<not> send_fails s h) ?cs"
    unfolding broadcast_loop_clients
    by (rule filter_cong) (force simp: look)+
  have "snd ?r = length (filter ((\<lambda>k. \<exists>h. map_of ?cs k = Some h \<and> deliverable s h) \<circ> fst) ?cs)"
    by (simp add: broadcast_loop_count length_filter_map)
  also have "filter ((\<lambda>k. \<exists>h. map_of ?cs k = Some h \<and> deliverable s h) \<circ> fst) ?cs =
             filter (\<lambda>(userId, h). deliverable s h) ?cs"
    by (rule filter_cong) (auto simp: look)
  finally have c2: "snd ?r = length (filter (\<lambda>(userId, h). deliverable s h) ?cs)" .
  have c3: "outbox (sockets (fst ?r) h) = outbox (sockets s h) @ [data]"
    if "(u, h) \<in> set ?cs" "deliverable s h" for u h
    using recipients_once [OF keys socks that(1)] that(2)
    by (simp add: broadcast_loop_outbox)
  show ?thesis
    using c1 c2 c3 by (auto simp: broadcastToClients_def split: prod.splits)
qed

theorem broadcast_partial_failure_witness:
  "registry_ok three_clients \<and>
   (case broadcastToClients (JStr ''hello'') three_clients of
      (s', successCount) \<Rightarrow>
        clients s' = [(''ann'', 0), (''cy'', 2)] \<and> successCount = 2 \<and>
        outbox (sockets s' 0) = [JStr ''hello''] \<and> outbox (sockets s' 2) = [JStr ''hello''])"
proof -
  have ok: "registry_ok three_clients"
    by (simp add: registry_ok_def three_clients_def)
  show ?thesis
    using ok broadcast_partial_failure [OF ok, of "JStr ''hello''"]
    by (auto simp: three_clients_def constructor_def new_socket_def deliverable_def
        send_fails_def split: prod.splits)
qed

lemma broadcast_frame [simp]:
  "esp32Status (fst (broadcastToClients d s)) = esp32Status s"
  "esp32Client (fst (broadcastToClients d s)) = esp32Client s"
  "saves (fst (broadcastToClients d s)) = saves s"
  "nextHandle (fst (broadcastToClients d s)) = nextHandle s"
  by (simp_all add: broadcastToClients_def)

lemma broadcast_socket [simp]:
  "readyState (sockets (fst (broadcastToClients d s)) h) = readyState (sockets s h)"
  "sendError (sockets (fst (broadcastToClients d s)) h) = sendError (sockets s h)"
  "isAlive (sockets (fst (broadcastToClients d s)) h) = isAlive (sockets s h)"
  "pings (sockets (fst (broadcastToClients d s)) h) = pings (sockets s h)"
  "terminated (sockets (fst (broadcastToClients d s)) h) = terminated (sockets s h)"
  by (simp_all add: broadcastToClients_def)

lemma broadcast_delivers:
  assumes "registry_ok s" "(u, h) \<in> set (clients s)" "deliverable s h"
  shows "outbox (sockets (fst (broadcastToClients d s)) h) = outbox (sockets s h) @ [d]"
  using assms recipients_once [of "clients s" u h]
  by (simp add: broadcastToClients_def broadcast_loop_outbox registry_ok_def)

lemma sendToUser_logs: "set (logs s) \<subseteq> set (logs (fst (sendToUser u d s)))"
  by (auto simp: sendToUser_def removeClient_def logger_def ws_send_def
      split: option.splits sum.splits)

lemma broadcast_loop_logs: "set (logs s) \<subseteq> set (logs (fst (broadcast_loop us d s n)))"
proof (induction us arbitrary: s n)
  case Nil
  then show ?case by simp
next
  case (Cons u us)
  show ?case
    unfolding broadcast_loop_Cons
    using sendToUser_logs [of s u d] Cons.IH by blast
qed

lemma broadcast_logs: "set (logs s) \<subseteq> set (logs (fst (broadcastToClients d s)))"
  by (simp add: broadcastToClients_def broadcast_loop_logs)

lemma sendToESP32_frame [simp]:
  "esp32Status (fst (sendToESP32 m s)) = esp32Status s"
  "esp32Client (fst (sendToESP32 m s)) = esp32Client s"
  "clients (fst (sendToESP32 m s)) = clients s"
  "saves (fst (sendToESP32 m s)) = saves s"
  "nextHandle (fst (sendToESP32 m s)) = nextHandle s"
  by (auto simp: sendToESP32_def logger_def ws_send_def split: option.splits sum.splits)

lemma sendToESP32_socket [simp]:
  "readyState (sockets (fst (sendToESP32 m s)) h) = readyState (sockets s h)"
  "sendError (sockets (fst (sendToESP32 m s)) h) = sendError (sockets s h)"
  "isAlive (sockets (fst (sendToESP32 m s)) h) = isAlive (sockets s h)"
  "pings (sockets (fst (sendToESP32 m s)) h) = pings (sockets s h)"
  "terminated (sockets (fst (sendToESP32 m s)) h) = terminated (sockets s h)"
  by (auto simp: sendToESP32_def logger_def ws_send_def split: option.splits sum.splits)


lemma sendToESP32_deliverable [simp]:
  "deliverable (fst (sendToESP32 m s)) h = deliverable s h"
  by (simp add: deliverable_def)

lemma broadcast_deliverable [simp]:
  "deliverable (fst (broadcastToClients d s)) h = deliverable s h"
  by (simp add: deliverable_def)

section \<open>Device registration\<close>

lemma handleESP32Connection_status:
  "esp32Client (handleESP32Connection ws now s) = Some ws"
  "connected (esp32Status (handleESP32Connection ws now s))"
  "lastSeen (esp32Status (handleESP32Connection ws now s)) = Some now"
  "isStreaming (esp32Status (handleESP32Connection ws now s)) = isStreaming (esp32Status s)"
  by (simp_all add: handleESP32Connection_def Let_def logger_def split: option.splits)

lemma handleESP32Connection_closes:
  "esp32Client s = Some old \<Longrightarrow> readyState (sockets s old) = OPEN \<Longrightarrow>
   readyState (sockets (handleESP32Connection ws now s) old) = CLOSING"
  by (simp add: handleESP32Connection_def Let_def logger_def ws_close_def)

lemma device_online_reachable: "reachable production device_online"
proof -
  have "fire production (Upgrade device_request 1000) constructor = Inr device_online"
    by (simp add: handleUpgrade_def on_connection_def device_request_def device_online_def
        constructor_def)
  then show ?thesis
    using reachable.start reachable.step by blast
qed

lemma device_online_eval:
  "esp32Client device_online = Some 0" "readyState (sockets device_online 0) = OPEN"
  "clients device_online = []" "connected (esp32Status device_online)"
  "lastSeen (esp32Status device_online) = Some 1000"
   apply (simp_all add: device_online_def handleESP32Connection_status)
   apply (simp_all add: handleESP32Connection_def Let_def constructor_def new_socket_def broadcastToClients_def
      sendToESP32_def ws_send_def new_connection_def)
  done

section \<open>The device status under each handler\<close>

lemma logger_frame [simp]:
  "esp32Status (logger lvl line s) = esp32Status s"
  "esp32Client (logger lvl line s) = esp32Client s"
  "clients (logger lvl line s) = clients s"
  "sockets (logger lvl line s) = sockets s"
  "saves (logger lvl line s) = saves s"
  "nextHandle (logger lvl line s) = nextHandle s"
  by (simp_all add: logger_def)

lemma saveSensorDataToDatabase_frame [simp]:
  "esp32Status (saveSensorDataToDatabase sd err s) = esp32Status s"
  "esp32Client (saveSensorDataToDatabase sd err s) = esp32Client s"
  "clients (saveSensorDataToDatabase sd err s) = clients s"
  "sockets (saveSensorDataToDatabase sd err s) = sockets s"
  by (simp_all add: saveSensorDataToDatabase_def Let_def split: option.splits)

lemma handleSensorData_status [simp]:
  "esp32Status (handleSensorData message err now s) = esp32Status s"
  by (simp add: handleSensorData_def Let_def)

lemma handleDeviceInfo_status [simp]:
  "connected (esp32Status (handleDeviceInfo message now s)) = connected (esp32Status s)"
  "lastSeen (esp32Status (handleDeviceInfo message now s)) = lastSeen (esp32Status s)"
  "isStreaming (esp32Status (handleDeviceInfo message now s)) = isStreaming (esp32Status s)"
  by (simp_all add: handleDeviceInfo_def Let_def)

lemma handleStatusUpdate_status [simp]:
  "connected (esp32Status (handleStatusUpdate message now s)) = connected (esp32Status s)"
  "lastSeen (esp32Status (handleStatusUpdate message now s)) = lastSeen (esp32Status s)"
  by (simp_all add: handleStatusUpdate_def Let_def)

lemma handleESP32Message_status:
  "connected (esp32Status (handleESP32Message data err now s)) = connected (esp32Status s)"
  "lastSeen (esp32Status (handleESP32Message data err now s)) = Some now"
  by (simp_all add: handleESP32Message_def Let_def
      split: frame.splits outcome.splits jsval.splits)

lemma handleClientMessage_status [simp]:
  "esp32Status (handleClientMessage ws userId data found now s) = esp32Status s"
  by (simp add: handleClientMessage_def handleGetSensorData_def handleControlESP32_def Let_def
      split: outcome.splits jsval.splits sum.splits option.splits)

lemma heartbeat_loop_frame [simp]:
  "esp32Status (heartbeat_loop cs s) = esp32Status s"
  "esp32Client (heartbeat_loop cs s) = esp32Client s"
  "clients (heartbeat_loop cs s) = clients s"
  by (induction cs s rule: heartbeat_loop.induct) (simp_all add: logger_def)

lemma heartbeat_frame [simp]:
  "esp32Status (heartbeat s) = esp32Status s"
  "esp32Client (heartbeat s) = esp32Client s"
  "clients (heartbeat s) = clients s"
  by (simp_all add: heartbeat_def Let_def split: option.splits)

lemma checkESP32Status_status:
  "connected (esp32Status (checkESP32Status now s)) \<Longrightarrow> connected (esp32Status s)"
  "lastSeen (esp32Status (checkESP32Status now s)) = lastSeen (esp32Status s)"
  "isStreaming (esp32Status (checkESP32Status now s)) = isStreaming (esp32Status s)"
  by (simp_all add: checkESP32Status_def split: option.splits if_splits)

lemma handleESP32Disconnect_status [simp]:
  "\<not> connected (esp32Status (handleESP32Disconnect now s))"
  "isStreaming (esp32Status (handleESP32Disconnect now s)) = JBool False"
  "esp32Client (handleESP32Disconnect now s) = None"
  by (simp_all add: handleESP32Disconnect_def)

lemma verifyClient_frame [simp]:
  "esp32Status (snd (verifyClient cfg req s)) = esp32Status s"
  by (simp add: verifyClient_def Let_def split: option.splits list.splits outcome.splits)

lemma handleUpgrade_frame [simp]:
  "esp32Status (snd (handleUpgrade cfg req s)) = esp32Status s"
proof (cases "verifyClient cfg req s")
  case (Pair r s1)
  then have "esp32Status s1 = esp32Status s"
    using verifyClient_frame [of cfg req s] by simp
  with Pair show ?thesis
    by (simp add: handleUpgrade_def split: option.splits sum.splits)
qed

lemma addClient_status [simp]: "esp32Status (addClient userId h s) = esp32Status s"
  by (simp add: addClient_def Let_def split: option.splits)

lemma handleClientConnection_status:
  "handleClientConnection ws userId now s = Inr s' \<Longrightarrow> esp32Status s' = esp32Status s"
  by (auto simp: handleClientConnection_def Let_def split: sum.splits)

lemma new_connection_status [simp]: "esp32Status (new_connection s) = esp32Status s"
  by (simp add: new_connection_def)

lemma on_connection_connected:
  "on_connection req user ws now s = Inr s' \<Longrightarrow> connected (esp32Status s') \<Longrightarrow>
   \<not> connected (esp32Status s) \<Longrightarrow> registers_device (Upgrade req now')"
  by (auto simp: on_connection_def split: option.splits if_splits list.splits
      dest!: handleClientConnection_status)

lemma fire_connected:
  assumes "fire cfg e s = Inr s'" "connected (esp32Status s')" "\<not> connected (esp32Status s)"
  shows "registers_device e"
proof (cases e)
  case (Upgrade req now)
  obtain r s1 where hu: "handleUpgrade cfg req s = (r, s1)"
    by (cases "handleUpgrade cfg req s")
  then have s1: "esp32Status s1 = esp32Status s"
    using handleUpgrade_frame [of cfg req s] by simp
  show ?thesis
  proof (cases r)
    case (Connection user)
    with Upgrade hu assms(1) have "on_connection req user (nextHandle s1) now (new_connection s1) = Inr s'"
      by simp
    from on_connection_connected [OF this assms(2)] s1 assms(3) Upgrade show ?thesis
      by simp
  next
    case Unauthorized
    with Upgrade hu assms s1 show ?thesis by auto
  next
    case (UpgradeFailed err)
    with Upgrade hu assms s1 show ?thesis by auto
  qed
next
  case (DeviceMessage data err now)
  with assms show ?thesis by (auto simp: handleESP32Message_status)
next
  case (StatusCheckTick now)
  with assms show ?thesis by (auto dest: checkESP32Status_status(1))
qed (use assms in \<open>auto simp: removeClient_def\<close>)

lemma run_stays_offline:
  "run cfg es s = Inr s' \<Longrightarrow> \<not> connected (esp32Status s) \<Longrightarrow>
   \<forall>e \<in> set es. \<not> registers_device e \<Longrightarrow> \<not> connected (esp32Status s')"
proof (induction es arbitrary: s)
  case Nil
  then show ?case by simp
next
  case (Cons e es)
  from Cons.prems(1) obtain s1 where f: "fire cfg e s = Inr s1" and r: "run cfg es s1 = Inr s'"
    by (auto split: sum.splits)
  have "\<not> connected (esp32Status s1)"
    using fire_connected [OF f] Cons.prems(2,3) by auto
  with Cons.IH [OF r] Cons.prems(3) show ?case by simp
qed

section \<open>Staleness and reconnection\<close>

lemma device_online_state:
  "device_online =
     \<lparr> clients = [], esp32Client = Some 0,
       esp32Status = \<lparr> connected = True, lastSeen = Some 1000, deviceInfo = None,
                        sensorTypes = JArr [], isStreaming = JBool False \<rparr>,
       sockets = (\<lambda>h. new_socket)
         (0 := new_socket\<lparr>outbox := [JObj [(''type'', JStr ''connection-established''),
                                           (''serverTime'', JIso 1000)]]\<rparr>),
       nextHandle = 1, saves = [], logs = [] \<rparr>"
  by (simp add: device_online_def handleESP32Connection_def Let_def constructor_def
      new_connection_def broadcastToClients_def sendToESP32_def ws_send_def new_socket_def)

lemma device_and_client_eval:
  "clients device_and_client = [(''ann'', Suc 0)]"
  "esp32Client device_and_client = Some 0"
  "connected (esp32Status device_and_client)"
  "lastSeen (esp32Status device_and_client) = Some 1000"
  "readyState (sockets device_and_client 0) = OPEN"
  "readyState (sockets device_and_client (Suc 0)) = OPEN"
  "sendError (sockets device_and_client (Suc 0)) = None"
  "sendError (sockets device_and_client 0) = None"
  by (simp_all add: device_and_client_def handleClientConnection_def ws_send_def
      new_connection_def device_online_state new_socket_def addClient_def Let_def)

lemma device_and_client_reachable: "reachable production device_and_client"
proof -
  have "handleUpgrade production client_request device_online = (Connection (Some ''ann''), device_online)"
    by (simp add: handleUpgrade_def verifyClient_def isOriginAllowed_def extractToken_def
        client_request_def production_def js_get_def Let_def)
  moreover have "nextHandle device_online = 1"
    by (simp add: device_online_state)
  ultimately have "fire production (Upgrade client_request 1500) device_online = Inr device_and_client"
    by (simp add: on_connection_def client_request_def device_and_client_def
        handleClientConnection_def ws_send_def new_connection_def new_socket_def Let_def
        split: sum.splits)
  then show ?thesis
    using device_online_reachable reachable.step by blast
qed

lemma fire_lastSeen:
  assumes "fire cfg e s = Inr s'" "lastSeen (esp32Status s) \<noteq> None"
  shows "lastSeen (esp32Status s') \<noteq> None"
proof (cases e)
  case (Upgrade req now)
  obtain r s1 where hu: "handleUpgrade cfg req s = (r, s1)"
    by (cases "handleUpgrade cfg req s")
  then have s1: "esp32Status s1 = esp32Status s"
    using handleUpgrade_frame [of cfg req s] by simp
  show ?thesis
  proof (cases r)
    case (Connection user)
    with Upgrade hu assms(1)
    have "on_connection req user (nextHandle s1) now (new_connection s1) = Inr s'"
      by simp
    then show ?thesis
      using s1 assms(2)
      by (auto simp: on_connection_def handleESP32Connection_status
          split: option.splits if_splits list.splits dest!: handleClientConnection_status)
  next
    case Unauthorized
    with Upgrade hu assms s1 show ?thesis by auto
  next
    case (UpgradeFailed err)
    with Upgrade hu assms s1 show ?thesis by auto
  qed
next
  case (DeviceMessage data err now)
  with assms show ?thesis by (auto simp: handleESP32Message_status)
next
  case (StatusCheckTick now)
  with assms show ?thesis by (auto simp: checkESP32Status_status)
next
  case (DeviceClose ws now)
  with assms show ?thesis by (auto simp: handleESP32Disconnect_def)
next
  case (DeviceError err now)
  with assms show ?thesis by (auto simp: handleESP32Disconnect_def)
qed (use assms in \<open>auto simp: removeClient_def\<close>)

lemma fire_registers:
  assumes "fire cfg e s = Inr s'" "registers_device e"
  shows "lastSeen (esp32Status s') \<noteq> None"
proof (cases e)
  case (Upgrade req now)
  with assms(2) obtain token where u: "url req = Some (''/esp32'', token)"
    by (auto split: option.splits)
  with Upgrade assms(1) show ?thesis
    by (auto simp: handleUpgrade_def on_connection_def handleESP32Connection_status)
qed (use assms in auto)

lemma connected_has_lastSeen:
  "reachable cfg s \<Longrightarrow> connected (esp32Status s) \<Longrightarrow> lastSeen (esp32Status s) \<noteq> None"
proof (induction rule: reachable.induct)
  case start
  then show ?case by (simp add: constructor_def)
next
  case (step s e s')
  show ?case
  proof (cases "connected (esp32Status s)")
    case True
    then show ?thesis using step fire_lastSeen by blast
  next
    case False
    then have "registers_device e"
      using fire_connected step by blast
    then show ?thesis using step fire_registers by blast
  qed
qed

text \<open>
  Claim C4. In a reachable state a connected device has a \<open>lastSeen\<close> time. When the
  staleness check runs on a connected device whose \<open>lastSeen\<close> lies more than the
  timeout back, it sets \<open>connected\<close> to false and every client whose socket is open
  and does not raise gets the offline status; the device slot keeps its handle and no
  socket is closed or terminated. When \<open>lastSeen\<close> is not that old the check changes
  nothing.
\<close>

theorem staleness_marks_offline:
  "(reachable cfg s \<and> connected (esp32Status s) \<longrightarrow> lastSeen (esp32Status s) \<noteq> None) \<and>
   (connected (esp32Status s) \<and> lastSeen (esp32Status s) = Some seen \<and> registry_ok s \<longrightarrow>
      (let s' = checkESP32Status now s;
           offline = JObj [(''type'', JStr ''esp32-status''), (''status'', JStr ''offline''),
                           (''lastSeen'', JDate seen), (''timestamp'', JIso now)]
       in (now - seen > esp32Timeout \<longrightarrow>
             \<not> connected (esp32Status s') \<and> esp32Client s' = esp32Client s \<and>
             (\<forall>h. readyState (sockets s' h) = readyState (sockets s h) \<and>
                  terminated (sockets s' h) = terminated (sockets s h)) \<and>
             (\<forall>(userId, h) \<in> set (clients s).
                deliverable s h \<longrightarrow> outbox (sockets s' h) = outbox (sockets s h) @ [offline])) \<and>
          (\<not> now - seen > esp32Timeout \<longrightarrow> s' = s)))"
proof -
  have "outbox (sockets (checkESP32Status now s) h) =
        outbox (sockets s h) @ [JObj [(''type'', JStr ''esp32-status''), (''status'', JStr ''offline''),
                           (''lastSeen'', JDate seen), (''timestamp'', JIso now)]]"
    if "connected (esp32Status s)" "lastSeen (esp32Status s) = Some seen" "registry_ok s"
       "now - seen > esp32Timeout" "(u, h) \<in> set (clients s)" "deliverable s h" for u h
  proof -
    let ?s1 = "(logger LogWarn ''ESP32 appears to be offline (timeout)'' s)
                 \<lparr>esp32Status := (esp32Status s)\<lparr>connected := False\<rparr>\<rparr>"
    have "registry_ok ?s1" "(u, h) \<in> set (clients ?s1)" "deliverable ?s1 h"
      using that by (simp_all add: registry_ok_def deliverable_def)
    from broadcast_delivers [OF this] that(1,2,4) show ?thesis
      by (simp add: checkESP32Status_def)
  qed
  then show ?thesis
    using connected_has_lastSeen [of cfg s]
    by (auto simp: Let_def checkESP32Status_def)
qed

theorem staleness_marks_offline_witness:
  "reachable production device_and_client \<and>
   connected (esp32Status device_and_client) \<and>
   lastSeen (esp32Status device_and_client) = Some 1000 \<and> registry_ok device_and_client \<and>
   70000 - 1000 > esp32Timeout \<and> (''ann'', 1) \<in> set (clients device_and_client) \<and>
   deliverable device_and_client 1 \<and>
   (let s' = checkESP32Status 70000 device_and_client
    in \<not> connected (esp32Status s') \<and> esp32Client s' = Some 0 \<and>
       readyState (sockets s' 0) = OPEN \<and>
       outbox (sockets s' 1) = outbox (sockets device_and_client 1) @
         [JObj [(''type'', JStr ''esp32-status''), (''status'', JStr ''offline''),
                (''lastSeen'', JDate 1000), (''timestamp'', JIso 70000)]]) \<and>
   checkESP32Status 1500 device_and_client = device_and_client"
  using staleness_marks_offline [of production device_and_client 1000 70000]
    staleness_marks_offline [of production device_and_client 1000 1500]
    device_and_client_reachable
  by (simp add: device_and_client_eval registry_ok_def deliverable_def esp32Timeout_def Let_def)


text \<open>
  Claim C10. A step of the gateway takes \<open>connected\<close> from false to true only when
  the event is an upgrade on the device path. Handling an inbound device frame, of any
  kind, sets \<open>lastSeen\<close> to the current time and leaves \<open>connected\<close> as it was, and
  so does the keepalive acknowledgment. Hence, once the staleness check has marked the
  device offline, no run of events without a device registration reports it connected.
\<close>

theorem connected_only_by_registration:
  "(fire cfg e s = Inr s' \<and> \<not> connected (esp32Status s) \<and> connected (esp32Status s') \<longrightarrow>
      registers_device e) \<and>
   connected (esp32Status (handleESP32Message data saveError now s)) = connected (esp32Status s) \<and>
   lastSeen (esp32Status (handleESP32Message data saveError now s)) = Some now \<and>
   fire cfg (DevicePong now) s = Inr (s\<lparr>esp32Status := (esp32Status s)\<lparr>lastSeen := Some now\<rparr>\<rparr>) \<and>
   (connected (esp32Status s) \<and> lastSeen (esp32Status s) = Some seen \<and>
    now - seen > esp32Timeout \<and> (\<forall>e \<in> set es. \<not> registers_device e) \<and>
    run cfg es (checkESP32Status now s) = Inr s'' \<longrightarrow> \<not> connected (esp32Status s''))"
proof -
  have "\<not> connected (esp32Status (checkESP32Status now s))"
    if "connected (esp32Status s)" "lastSeen (esp32Status s) = Some seen" "now - seen > esp32Timeout"
    using that by (simp add: checkESP32Status_def)
  then show ?thesis
    using fire_connected [of cfg e s s'] run_stays_offline [of cfg es "checkESP32Status now s" s'']
    by (auto simp: handleESP32Message_status)
qed

theorem connected_only_by_registration_witness:
  "fire production (Upgrade device_request 1000) constructor = Inr device_online \<and>
   \<not> connected (esp32Status constructor) \<and> connected (esp32Status device_online) \<and>
   registers_device (Upgrade device_request 1000) \<and>
   lastSeen (esp32Status device_online) = Some 1000 \<and> 70000 - 1000 > esp32Timeout \<and>
   list_all (\<lambda>e. \<not> registers_device e) traffic \<and>
   run production traffic marked_offline = Inr after_traffic \<and>
   \<not> connected (esp32Status after_traffic) \<and>
   lastSeen (esp32Status after_traffic) = Some 70003"
proof -
  have f: "fire production (Upgrade device_request 1000) constructor = Inr device_online"
    by (simp add: handleUpgrade_def on_connection_def device_request_def device_online_def
        constructor_def)
  have r: "run production traffic marked_offline = Inr after_traffic"
    by (simp add: traffic_def after_traffic_def)
  have l: "lastSeen (esp32Status after_traffic) = Some 70003"
    by (simp add: traffic_def after_traffic_def)
  have t: "\<forall>e \<in> set traffic. \<not> registers_device e"
    by (simp add: traffic_def)
  have t': "list_all (\<lambda>e. \<not> registers_device e) traffic"
    by (simp add: traffic_def)
  show ?thesis
    using connected_only_by_registration
      [where cfg = production and e = "Upgrade device_request 1000" and s = constructor
         and s' = device_online]
      connected_only_by_registration
      [where cfg = production and s = device_online and seen = 1000 and now = 70000
         and es = traffic and s'' = after_traffic] f r l t t'
    by (simp add: device_online_eval constructor_def esp32Timeout_def marked_offline_def
        device_request_def)
qed

text \<open>
  Claim C9, at a state the code reaches: the device connects, reports that it streams,
  and falls silent; the staleness check then clears \<open>connected\<close> and leaves
  \<open>isStreaming\<close> true.
\<close>

theorem streaming_survives_offline_marking:
  "reachable production streaming_offline \<and>
   isStreaming (esp32Status streaming_offline) = JBool True \<and>
   \<not> connected (esp32Status streaming_offline)"
proof -
  let ?s1 = "handleESP32Message (Text (Returns (JObj streaming_update))) None 2000 device_online"
  have "fire production (DeviceMessage (Text (Returns (JObj streaming_update))) None 2000) device_online
          = Inr ?s1"
    by simp
  then have r1: "reachable production ?s1"
    using device_online_reachable reachable.step by blast
  have "fire production (StatusCheckTick 70000) ?s1 = Inr streaming_offline"
    by (simp add: streaming_offline_def)
  then have r2: "reachable production streaming_offline"
    using r1 reachable.step by blast
  have i: "isStreaming (esp32Status ?s1) = JBool True"
    by (simp add: handleESP32Message_def handleStatusUpdate_def streaming_update_def
        js_get_def js_or_def Let_def)
  have c: "\<not> connected (esp32Status streaming_offline)"
    by (simp add: streaming_offline_def checkESP32Status_def handleESP32Message_status
        device_online_eval esp32Timeout_def)
  show ?thesis
    using r2 i c by (simp add: streaming_offline_def checkESP32Status_status)
qed

section \<open>The handshake decision\<close>

text \<open>
  Claim C7 as stated fails: the device path is accepted although the origin policy
  rejects the request's origin, and in development mode the policy allows an origin
  that is neither in the allow-list nor covered by a wildcard.
\<close>

theorem device_path_ignores_origin:
  "\<not> isOriginAllowed production (origin foreign_device_request) \<and>
   fst (handleUpgrade production foreign_device_request constructor) = Connection None \<and>
   isOriginAllowed (production\<lparr>nodeEnv := Some ''development''\<rparr>) (Some ''http://evil.example'') \<and>
   ''http://evil.example'' \<notin> set (allowedOrigins (production\<lparr>nodeEnv := Some ''development''\<rparr>)) \<and>
   ''*'' \<notin> set (allowedOrigins (production\<lparr>nodeEnv := Some ''development''\<rparr>))"
  by (simp add: isOriginAllowed_def allowedOrigins_def production_def foreign_device_request_def
      device_request_def handleUpgrade_def)

text \<open>
  Claim C7, amended. An upgrade on the device path is accepted as a device connection
  whatever the configuration, the Credential Verifier and the origin are: the origin
  policy is not applied to it. The policy is applied on every other path, where a
  rejected origin makes the upgrade unauthorized. The policy never rejects an absent or
  empty origin; it rejects a non-empty origin exactly when the mode is not development
  and the allow-list (the configured origins, the server's own origin and
  \<^verbatim>\<open>http://localhost:3000\<close>) holds neither the origin nor the wildcard.
\<close>

theorem device_upgrade_unconditional:
  "(url req = Some (''/esp32'', token) \<longrightarrow>
      handleUpgrade cfg req s = (Connection None, s) \<and>
      on_connection req user ws now s = Inr (handleESP32Connection ws now s) \<and>
      fire cfg (Upgrade req now) s =
        Inr (handleESP32Connection (nextHandle s) now (new_connection s))) \<and>
   (url req = Some (pathname, token) \<and> pathname \<noteq> ''/esp32'' \<and>
    \<not> isOriginAllowed cfg (origin req) \<longrightarrow> fst (handleUpgrade cfg req s) = Unauthorized) \<and>
   isOriginAllowed cfg None \<and> isOriginAllowed cfg (Some []) \<and>
   (og \<noteq> [] \<longrightarrow>
      (\<not> isOriginAllowed cfg (Some og)) =
      (nodeEnv cfg \<noteq> Some ''development'' \<and> og \<notin> set (allowedOrigins cfg) \<and>
       ''*'' \<notin> set (allowedOrigins cfg)))"
  by (simp add: handleUpgrade_def on_connection_def isOriginAllowed_def verifyClient_def Let_def)

theorem device_upgrade_unconditional_witness:
  "url foreign_device_request = Some (''/esp32'', None) \<and>
   handleUpgrade production foreign_device_request constructor = (Connection None, constructor) \<and>
   handleUpgrade (production\<lparr>jwtVerify := (\<lambda>token. Throws ''denied'')\<rparr>) foreign_device_request
     constructor = (Connection None, constructor) \<and>
   fire production (Upgrade foreign_device_request 1000) constructor = Inr device_online \<and>
   url (client_request\<lparr>origin := Some ''http://evil.example''\<rparr>) = Some (''/ws'', Some ''good'') \<and>
   \<not> isOriginAllowed production (Some ''http://evil.example'') \<and>
   fst (handleUpgrade production (client_request\<lparr>origin := Some ''http://evil.example''\<rparr>)
          constructor) = Unauthorized \<and>
   isOriginAllowed production (Some ''https://app.example'') \<and>
   isOriginAllowed (production\<lparr>corsAllowedOrigins := Some [''*'']\<rparr>) (Some ''http://evil.example'')"
  using device_upgrade_unconditional
      [where req = foreign_device_request and token = None and cfg = production
         and s = constructor and now = 1000 and og = "''http://evil.example''"]
    device_upgrade_unconditional
      [where req = foreign_device_request and token = None and s = constructor
         and cfg = "production\<lparr>jwtVerify := (\<lambda>token. Throws ''denied'')\<rparr>"]
    device_upgrade_unconditional
      [where req = "client_request\<lparr>origin := Some ''http://evil.example''\<rparr>"
         and pathname = "''/ws''" and token = "Some ''good''" and cfg = production
         and s = constructor and og = "''https://app.example''"]
    device_upgrade_unconditional
      [where cfg = "production\<lparr>corsAllowedOrigins := Some [''*'']\<rparr>"
         and og = "''http://evil.example''"]
  by (simp add: foreign_device_request_def device_request_def client_request_def
      production_def allowedOrigins_def device_online_def constructor_def)

section \<open>Command relay\<close>

lemma template_ok_JStr [simp]: "template_ok (JStr x)"
  by simp



section \<open>Sensor data\<close>

lemma map_of_map_set: "map_of (map_set k v kvs) = (map_of kvs)(k \<mapsto> v)"
  by (induction kvs) auto

lemma map_of_fold_map_set:
  "map_of (fold (\<lambda>k. map_set k (f k)) ks base) x =
     (if x \<in> set ks then Some (f x) else map_of base x)"
  by (induction ks arbitrary: base) (auto simp: map_of_map_set)

lemma js_get_spread:
  "js_get (spread base src) k = (case map_of src k of None \<Rightarrow> js_get base k | Some v \<Rightarrow> v)"
proof (cases "map_of src k")
  case None
  then have "k \<notin> set (map fst src)"
    by (simp add: map_of_eq_None_iff)
  with None show ?thesis
    by (simp add: spread_def js_get_def map_of_fold_map_set)
next
  case (Some v)
  then have "k \<in> set (map fst src)"
    by (metis map_of_eq_None_iff option.distinct(1) set_map)
  with Some show ?thesis
    by (simp add: spread_def js_get_def map_of_fold_map_set)
qed

lemma sensorData_fields:
  "js_get (sensorData message now) ''timestamp'' =
     (case map_of message ''timestamp'' of None \<Rightarrow> JDate now | Some v \<Rightarrow> v)"
  "js_get (sensorData message now) ''sensorType'' =
     (case map_of message ''sensorType'' of None \<Rightarrow> JStr ''unknown'' | Some v \<Rightarrow> v)"
  "js_get (sensorData message now) ''deviceId'' =
     (case map_of message ''deviceId'' of None \<Rightarrow> JStr ''esp32-main'' | Some v \<Rightarrow> v)"
  "js_get (sensorData message now) ''type'' = js_get message ''type''"
  unfolding sensorData_def js_get_spread
  by (simp_all add: js_get_def js_or_def split: option.splits)

lemma saveSensorDataToDatabase_saves:
  "saves (saveSensorDataToDatabase sd err s) =
     saves s @ [(JObj (newSensorData sd (esp32Status s)), err)]"
  by (simp add: saveSensorDataToDatabase_def Let_def logger_def split: option.splits)

lemma saveSensorDataToDatabase_logs:
  "set (logs s) \<subseteq> set (logs (saveSensorDataToDatabase sd err s))"
  "err = Some e \<Longrightarrow>
   (LogError, ''Failed to save sensor data to database: '' @ e)
     \<in> set (logs (saveSensorDataToDatabase sd err s))"
  by (auto simp: saveSensorDataToDatabase_def Let_def logger_def split: option.splits)

lemma handleSensorData_saves:
  "saves (handleSensorData message err now s) =
     saves s @ [(JObj (newSensorData (sensorData message now) (esp32Status s)), err)]"
  by (simp add: handleSensorData_def Let_def logger_def saveSensorDataToDatabase_saves)

lemma handleSensorData_logs:
  "err = Some e \<Longrightarrow>
   (LogError, ''Failed to save sensor data to database: '' @ e)
     \<in> set (logs (handleSensorData message err now s))"
  using broadcast_logs saveSensorDataToDatabase_logs(2)
  by (fastforce simp: handleSensorData_def Let_def logger_def)

lemma broadcast_outbox_others:
  "h \<notin> snd ` set (clients s) \<Longrightarrow>
   outbox (sockets (fst (broadcastToClients d s)) h) = outbox (sockets s h)"
proof -
  assume "h \<notin> snd ` set (clients s)"
  then have "filter (\<lambda>k. map_of (clients s) k = Some h \<and> deliverable s h) (map fst (clients s)) = []"
    by (force simp: filter_empty_conv dest: map_of_SomeD)
  then show ?thesis
    by (simp add: broadcastToClients_def broadcast_loop_outbox)
qed

lemma handleSensorData_outbox:
  "registry_ok s \<Longrightarrow> (u, h) \<in> set (clients s) \<Longrightarrow> deliverable s h \<Longrightarrow>
   outbox (sockets (handleSensorData message err now s) h) =
     outbox (sockets s h) @ [JObj (spread [(''type'', JStr ''sensor-data'')] (sensorData message now))]"
  "h \<notin> snd ` set (clients s) \<Longrightarrow>
   outbox (sockets (handleSensorData message err now s) h) = outbox (sockets s h)"
proof -
  let ?s1 = "saveSensorDataToDatabase (sensorData message now) err s"
  have s1: "clients ?s1 = clients s" "sockets ?s1 = sockets s"
    by simp_all
  { assume "registry_ok s" "(u, h) \<in> set (clients s)" "deliverable s h"
    then have "registry_ok ?s1" "(u, h) \<in> set (clients ?s1)" "deliverable ?s1 h"
      by (simp_all add: registry_ok_def deliverable_def)
    from broadcast_delivers [OF this]
    show "outbox (sockets (handleSensorData message err now s) h) =
     outbox (sockets s h) @ [JObj (spread [(''type'', JStr ''sensor-data'')] (sensorData message now))]"
      by (simp add: handleSensorData_def Let_def) }
  { assume "h \<notin> snd ` set (clients s)"
    then have "h \<notin> snd ` set (clients ?s1)" by simp
    from broadcast_outbox_others [OF this]
    show "outbox (sockets (handleSensorData message err now s) h) = outbox (sockets s h)"
      by (simp add: handleSensorData_def Let_def) }
qed

lemma persisted_append:
  "saves s' = saves s @ [(doc, err)] \<Longrightarrow>
   persisted s' = persisted s @ (if err = None then [doc] else [])"
  by (simp add: persisted_def)

section \<open>Ingestion\<close>

text \<open>
  Claim C1. A structured device message of type \<^verbatim>\<open>sensor-data\<close> hands exactly one
  document to the Sensor Store, whether the save succeeds or raises: a successful save
  adds that one document to what the store keeps, a failed one adds nothing, is logged as
  an error and is not tried again. In both cases every client whose socket is open and
  does not raise is sent the same single \<^verbatim>\<open>sensor-data\<close> message, and no socket
  outside the registry is sent anything.
\<close>

theorem sensor_data_saved_and_broadcast:
  assumes "js_get message ''type'' = JStr ''sensor-data''" and "registry_ok s"
  shows
   "let s' = handleESP32Message (Text (Returns (JObj message))) saveError now s;
        reading = JObj (newSensorData (sensorData message now)
                          ((esp32Status s)\<lparr>lastSeen := Some now\<rparr>));
        sent = spread [(''type'', JStr ''sensor-data'')] (sensorData message now)
    in saves s' = saves s @ [(reading, saveError)] \<and>
       persisted s' = persisted s @ (if saveError = None then [reading] else []) \<and>
       (\<forall>err. saveError = Some err \<longrightarrow>
          (LogError, ''Failed to save sensor data to database: '' @ err) \<in> set (logs s')) \<and>
       js_get sent ''type'' = JStr ''sensor-data'' \<and>
       (\<forall>(userId, h) \<in> set (clients s).
          deliverable s h \<longrightarrow> outbox (sockets s' h) = outbox (sockets s h) @ [JObj sent]) \<and>
       (\<forall>h. h \<notin> snd ` set (clients s) \<longrightarrow> outbox (sockets s' h) = outbox (sockets s h))"
proof -
  let ?s0 = "s\<lparr>esp32Status := (esp32Status s)\<lparr>lastSeen := Some now\<rparr>\<rparr>"
  let ?s' = "handleESP32Message (Text (Returns (JObj message))) saveError now s"
  have eq: "?s' = handleSensorData message saveError now ?s0"
    using assms(1) by (simp add: handleESP32Message_def Let_def)
  have ok: "registry_ok ?s0"
    using assms(2) by (simp add: registry_ok_def)
  have sv: "saves ?s' = saves s @ [(JObj (newSensorData (sensorData message now)
                          ((esp32Status s)\<lparr>lastSeen := Some now\<rparr>)), saveError)]"
    unfolding eq by (simp add: handleSensorData_saves)
  have lg: "(LogError, ''Failed to save sensor data to database: '' @ err) \<in> set (logs ?s')"
    if "saveError = Some err" for err
    unfolding eq using that by (rule handleSensorData_logs)
  have ty: "js_get (spread [(''type'', JStr ''sensor-data'')] (sensorData message now)) ''type''
              = JStr ''sensor-data''"
    using assms(1) sensorData_fields(4) [of message now] unfolding js_get_spread
    by (auto simp: js_get_def split: option.splits)
  have ob: "outbox (sockets ?s' h) = outbox (sockets s h) @
              [JObj (spread [(''type'', JStr ''sensor-data'')] (sensorData message now))]"
    if "(u, h) \<in> set (clients s)" "deliverable s h" for u h
    unfolding eq using handleSensorData_outbox(1) [OF ok, of u h] that
    by (simp add: deliverable_def)
  have ot: "outbox (sockets ?s' h) = outbox (sockets s h)" if "h \<notin> snd ` set (clients s)" for h
    unfolding eq using handleSensorData_outbox(2) [of h ?s0] that by simp
  show ?thesis
    unfolding Let_def using sv persisted_append [OF sv] lg ty ob ot by auto
qed


lemma three_clients_ok: "registry_ok three_clients"
  by (simp add: registry_ok_def three_clients_def)

theorem sensor_data_saved_and_broadcast_witness:
  "js_get temp_reading ''type'' = JStr ''sensor-data'' \<and> registry_ok three_clients \<and>
   deliverable three_clients 0 \<and> deliverable three_clients 2 \<and> send_fails three_clients 1 \<and>
   (let s' = handleESP32Message (Text (Returns (JObj temp_reading))) (Some ''db down'') 5000
               three_clients;
        sent = JObj [(''type'', JStr ''sensor-data''), (''timestamp'', JDate 5000),
                     (''sensorType'', JStr ''temp''), (''data'', JObj [(''v'', JNum 21)]),
                     (''deviceId'', JStr ''esp32-main'')]
    in length (saves s') = 1 \<and> persisted s' = [] \<and>
       (LogError, ''Failed to save sensor data to database: db down'') \<in> set (logs s') \<and>
       outbox (sockets s' 0) = [sent] \<and> outbox (sockets s' 2) = [sent]) \<and>
   (let s' = handleESP32Message (Text (Returns (JObj temp_reading))) None 5000 three_clients
    in length (persisted s') = 1 \<and> length (outbox (sockets s' 0)) = 1)"
proof -
  have t: "js_get temp_reading ''type'' = JStr ''sensor-data''"
    by (simp add: temp_reading_def js_get_def)
  have d: "deliverable three_clients 0" "deliverable three_clients 2" "send_fails three_clients 1"
    by (simp_all add: three_clients_def constructor_def new_socket_def deliverable_def
        send_fails_def)
  have c: "clients three_clients = [(''ann'', 0), (''bob'', 1), (''cy'', 2)]"
    "saves three_clients = []" "outbox (sockets three_clients h) = []" for h
    by (simp_all add: three_clients_def constructor_def new_socket_def)
  have s: "spread [(''type'', JStr ''sensor-data'')] (sensorData temp_reading 5000) =
             [(''type'', JStr ''sensor-data''), (''timestamp'', JDate 5000),
              (''sensorType'', JStr ''temp''), (''data'', JObj [(''v'', JNum 21)]),
              (''deviceId'', JStr ''esp32-main'')]"
    by (simp add: spread_def sensorData_def temp_reading_def js_get_def js_or_def)
  show ?thesis
    using sensor_data_saved_and_broadcast [OF t three_clients_ok, of "Some ''db down''" 5000]
      sensor_data_saved_and_broadcast [OF t three_clients_ok, of None 5000]
      t three_clients_ok d
    by (simp add: Let_def c s persisted_def)
qed

section \<open>The reading built from a message\<close>

lemma newSensorData_lastSeen [simp]:
  "newSensorData sd (st\<lparr>lastSeen := t\<rparr>) = newSensorData sd st"
  by (simp add: newSensorData_def)

lemma newSensorData_fields:
  "js_get (newSensorData sd st) ''timestamp'' = js_get sd ''timestamp''"
  "js_get (newSensorData sd st) ''sensorType'' = js_get sd ''sensorType''"
  "js_get (newSensorData sd st) ''deviceId'' = js_get sd ''deviceId''"
  "js_get (newSensorData sd st) ''metadata'' =
     JObj [(''batteryLevel'',
            (case deviceInfo st of None \<Rightarrow> JUndefined | Some info \<Rightarrow> js_get info ''batteryLevel'')),
           (''signalStrength'',
            (case deviceInfo st of None \<Rightarrow> JUndefined | Some info \<Rightarrow> js_get info ''signalStrength''))]"
  by (simp_all add: newSensorData_def js_get_def Let_def)

text \<open>
  Claim C6, at a message the device can send: a \<^verbatim>\<open>sensor-data\<close> message that has
  \<^verbatim>\<open>timestamp\<close> and \<^verbatim>\<open>deviceId\<close> fields of its own, received at time 1000. The
  reading handed to the store carries the message's timestamp, not the current time, and
  the message's device identifier, not the fixed one.
\<close>

theorem message_fields_override_reading:
  "saves (handleESP32Message (Text (Returns (JObj relabelled_reading))) None 1000 constructor) =
     [(JObj [(''deviceId'', JStr ''probe-7''), (''sensorType'', JStr ''temp''),
             (''data'', JObj [(''v'', JNum 21)]), (''timestamp'', JNum 5),
             (''metadata'', JObj [(''batteryLevel'', JUndefined),
                                  (''signalStrength'', JUndefined)])], None)] \<and>
   JNum 5 \<noteq> JDate 1000 \<and> JStr ''probe-7'' \<noteq> JStr ''esp32-main''"
proof -
  have "sensorData relabelled_reading 1000 =
          [(''timestamp'', JNum 5), (''sensorType'', JStr ''temp''),
           (''data'', JObj [(''v'', JNum 21)]), (''deviceId'', JStr ''probe-7''),
           (''type'', JStr ''sensor-data'')]"
    by (simp add: sensorData_def spread_def relabelled_reading_def stamped_reading_def
        temp_reading_def js_get_def js_or_def)
  then show ?thesis
    by (simp add: handleESP32Message_def Let_def handleSensorData_saves newSensorData_def
        js_get_def constructor_def relabelled_reading_def stamped_reading_def temp_reading_def)
qed

text \<open>
  What the reading of every structured \<^verbatim>\<open>sensor-data\<close> message does carry: as
  timestamp the message's own \<^verbatim>\<open>timestamp\<close> field when it has one and the current time
  otherwise, as sensor type the message's \<^verbatim>\<open>sensorType\<close> field when it has one and
  \<^verbatim>\<open>unknown\<close> otherwise, as device identifier the message's \<^verbatim>\<open>deviceId\<close> field when
  it has one and \<^verbatim>\<open>esp32-main\<close> otherwise, and as metadata the battery level and
  signal strength of the current device status.
\<close>

lemma sensor_reading_fields:
  assumes "js_get message ''type'' = JStr ''sensor-data''"
  shows
   "let reading = newSensorData (sensorData message now) (esp32Status s)
    in saves (handleESP32Message (Text (Returns (JObj message))) saveError now s) =
         saves s @ [(JObj reading, saveError)] \<and>
       js_get reading ''timestamp'' =
         (case map_of message ''timestamp'' of None \<Rightarrow> JDate now | Some v \<Rightarrow> v) \<and>
       js_get reading ''sensorType'' =
         (case map_of message ''sensorType'' of None \<Rightarrow> JStr ''unknown'' | Some v \<Rightarrow> v) \<and>
       js_get reading ''deviceId'' =
         (case map_of message ''deviceId'' of None \<Rightarrow> JStr ''esp32-main'' | Some v \<Rightarrow> v) \<and>
       js_get reading ''metadata'' =
         JObj [(''batteryLevel'',
                (case deviceInfo (esp32Status s) of
                   None \<Rightarrow> JUndefined | Some info \<Rightarrow> js_get info ''batteryLevel'')),
               (''signalStrength'',
                (case deviceInfo (esp32Status s) of
                   None \<Rightarrow> JUndefined | Some info \<Rightarrow> js_get info ''signalStrength''))]"
proof -
  have "handleESP32Message (Text (Returns (JObj message))) saveError now s =
        handleSensorData message saveError now (s\<lparr>esp32Status := (esp32Status s)\<lparr>lastSeen := Some now\<rparr>\<rparr>)"
    using assms by (simp add: handleESP32Message_def Let_def)
  then show ?thesis
    by (simp add: Let_def handleSensorData_saves newSensorData_fields sensorData_fields)
qed

section \<open>Heartbeat\<close>

lemma heartbeat_loop_sockets:
  "distinct (map snd cs) \<Longrightarrow>
   sockets (heartbeat_loop cs s) h =
     (if h \<in> snd ` set cs then beat (sockets s h) else sockets s h)"
proof (induction cs s rule: heartbeat_loop.induct)
  case (1 s)
  then show ?case by simp
next
  case (2 userId ws rest s)
  let ?s1 = "if isAlive (sockets s ws) = Some False
        then (logger LogWarn (''Terminating unresponsive client: '' @ userId) s)
               \<lparr>sockets := (sockets s)(ws := ws_terminate (sockets s ws))\<rparr>
        else s\<lparr>sockets := (sockets s)(ws := ws_ping ((sockets s ws)\<lparr>isAlive := Some False\<rparr>))\<rparr>"
  have s1: "sockets ?s1 = (sockets s)(ws := beat (sockets s ws))"
    by (simp add: beat_def)
  have "sockets (heartbeat_loop rest ?s1) h =
          (if h \<in> snd ` set rest then beat (sockets ?s1 h) else sockets ?s1 h)"
    using "2.IH" "2.prems" by simp
  then show ?case
    using "2.prems" unfolding heartbeat_loop.simps s1 by auto
qed

lemma heartbeat_sockets:
  assumes "registry_ok s" "(userId, ws) \<in> set (clients s)" "esp32Client s \<noteq> Some ws"
  shows "sockets (heartbeat s) ws = beat (sockets s ws)"
proof -
  have "ws \<in> snd ` set (clients s)"
    using assms(2) by force
  then have "sockets (heartbeat_loop (clients s) s) ws = beat (sockets s ws)"
    using assms(1) by (simp add: heartbeat_loop_sockets registry_ok_def)
  then show ?thesis
    using assms(3) by (auto simp: heartbeat_def Let_def split: option.splits)
qed

lemma heartbeat_ok:
  "registry_ok s \<Longrightarrow> registry_ok (heartbeat s)"
  by (simp add: registry_ok_def)

lemma removeClient_gone: "userId \<notin> fst ` set (clients (removeClient userId s))"
  by (auto simp: removeClient_def map_delete_def)

text \<open>
  Claim C3. One heartbeat cycle leaves the registry as it is. For a registered client
  whose alive flag is not false it sets the flag to false and sends a ping (the socket
  being open); a pong sets the flag to true. For a registered client whose flag is false
  it terminates the socket, and the close event that follows runs the client's close
  listener, which removes the client from the registry. So a client that is registered
  at one cycle and sends no pong before the next has its socket terminated by the next.
\<close>

theorem heartbeat_cycle:
  assumes "registry_ok s" and "(userId, ws) \<in> set (clients s)" and "esp32Client s \<noteq> Some ws"
  shows
   "clients (heartbeat s) = clients s \<and>
    (isAlive (sockets s ws) \<noteq> Some False \<longrightarrow>
       isAlive (sockets (heartbeat s) ws) = Some False \<and>
       pings (sockets (heartbeat s) ws) =
         pings (sockets s ws) + (if readyState (sockets s ws) = OPEN then 1 else 0) \<and>
       readyState (sockets (heartbeat s) ws) = readyState (sockets s ws) \<and>
       terminated (sockets (heartbeat s) ws) = terminated (sockets s ws)) \<and>
    (isAlive (sockets s ws) = Some False \<longrightarrow>
       readyState (sockets (heartbeat s) ws) \<noteq> OPEN \<and>
       (readyState (sockets s ws) \<noteq> CLOSED \<longrightarrow> terminated (sockets (heartbeat s) ws)) \<and>
       pings (sockets (heartbeat s) ws) = pings (sockets s ws) \<and>
       (case fire cfg (ClientClose ws userId) (heartbeat s) of
          Inl err \<Rightarrow> False
        | Inr s' \<Rightarrow> userId \<notin> fst ` set (clients s'))) \<and>
    (case fire cfg (ClientPong ws) s of
       Inl err \<Rightarrow> False
     | Inr s' \<Rightarrow> isAlive (sockets s' ws) = Some True \<and> clients s' = clients s) \<and>
    (readyState (sockets s ws) \<noteq> CLOSED \<longrightarrow> terminated (sockets (heartbeat (heartbeat s)) ws))"
proof -
  have one: "sockets (heartbeat s) ws = beat (sockets s ws)"
    using assms by (rule heartbeat_sockets)
  have two: "sockets (heartbeat (heartbeat s)) ws = beat (beat (sockets s ws))"
    using heartbeat_sockets [of "heartbeat s" userId ws] assms one
    by (simp add: heartbeat_ok)
  show ?thesis
    unfolding one two
    by (auto simp: beat_def ws_ping_def ws_terminate_def removeClient_gone)
qed

theorem heartbeat_cycle_witness:
  "registry_ok two_clients \<and> (''ann'', 0) \<in> set (clients two_clients) \<and>
   (''bob'', 1) \<in> set (clients two_clients) \<and> esp32Client two_clients = None \<and>
   isAlive (sockets two_clients 0) = Some True \<and> isAlive (sockets two_clients 1) = Some False \<and>
   isAlive (sockets (heartbeat two_clients) 0) = Some False \<and>
   pings (sockets (heartbeat two_clients) 0) = 1 \<and>
   readyState (sockets (heartbeat two_clients) 0) = OPEN \<and>
   readyState (sockets (heartbeat two_clients) 1) \<noteq> OPEN \<and>
   terminated (sockets (heartbeat two_clients) 1) \<and>
   (case fire production (ClientClose 1 ''bob'') (heartbeat two_clients) of
      Inl err \<Rightarrow> False
    | Inr s' \<Rightarrow> map fst (clients s') = [''ann'']) \<and>
   terminated (sockets (heartbeat (heartbeat two_clients)) 0)"
proof -
  have ok: "registry_ok two_clients"
    by (simp add: registry_ok_def two_clients_def)
  have c: "(''ann'', 0) \<in> set (clients two_clients)" "(''bob'', 1) \<in> set (clients two_clients)"
    "esp32Client two_clients \<noteq> Some 0" "esp32Client two_clients \<noteq> Some 1"
    "clients two_clients = [(''ann'', 0), (''bob'', 1)]"
    by (simp_all add: two_clients_def constructor_def)
  have k: "sockets two_clients 0 = new_socket\<lparr>isAlive := Some True\<rparr>"
    "sockets two_clients (Suc 0) = new_socket\<lparr>isAlive := Some False\<rparr>"
    "esp32Client two_clients = None"
    by (simp_all add: two_clients_def constructor_def)
  show ?thesis
    using heartbeat_cycle [OF ok c(1,3), of production]
      heartbeat_cycle [OF ok c(2,4), of production] ok c
    by (simp add: k new_socket_def removeClient_def map_delete_def)
qed

section \<open>The registry in reachable states\<close>

lemma quiet_refl [simp]: "quiet s s"
  unfolding quiet_def by (auto intro: exI [of _ "\<lambda>x. True"])

lemma quiet_trans: "quiet s s1 \<Longrightarrow> quiet s1 s2 \<Longrightarrow> quiet s s2"
  unfolding quiet_def by (elim conjE exE) (auto simp: filter_filter)

lemma quiet_same:
  "clients s' = clients s \<Longrightarrow> nextHandle s' = nextHandle s \<Longrightarrow>
   esp32Client s' = esp32Client s \<or> esp32Client s' = None \<Longrightarrow> quiet s s'"
  unfolding quiet_def by (auto intro: exI [of _ "\<lambda>x. True"])

lemma quiet_inv: "quiet s s' \<Longrightarrow> registry_inv s \<Longrightarrow> registry_inv s'"
  unfolding quiet_def registry_inv_def registry_ok_def
  by (elim conjE exE) (force simp: distinct_map_filter)

lemma quiet_logger [simp]: "quiet s (logger lvl line s)"
  by (rule quiet_same) simp_all

lemma quiet_removeClient [simp]: "quiet s (removeClient userId s)"
  unfolding quiet_def removeClient_def map_delete_def by auto

lemma quiet_sendToUser [simp]: "quiet s (fst (sendToUser u d s))"
  unfolding quiet_def by (auto simp: sendToUser_clients map_delete_def intro: exI [of _ "\<lambda>x. True"])

lemma quiet_broadcast [simp]: "quiet s (fst (broadcastToClients d s))"
  unfolding quiet_def by (auto simp: broadcastToClients_def broadcast_loop_clients)

lemma quiet_sendToESP32 [simp]: "quiet s (fst (sendToESP32 m s))"
  by (rule quiet_same) simp_all

lemma quiet_after:
  "clients s1 = clients s \<Longrightarrow> nextHandle s1 = nextHandle s \<Longrightarrow>
   esp32Client s1 = esp32Client s \<or> esp32Client s1 = None \<Longrightarrow> quiet s1 s2 \<Longrightarrow> quiet s s2"
  using quiet_same quiet_trans by blast

lemma saveSensorDataToDatabase_nextHandle [simp]:
  "nextHandle (saveSensorDataToDatabase sd err s) = nextHandle s"
  by (simp add: saveSensorDataToDatabase_def Let_def split: option.splits)

lemma quiet_handleSensorData [simp]: "quiet s (handleSensorData message err now s)"
proof -
  let ?s1 = "saveSensorDataToDatabase (sensorData message now) err s"
  have "quiet s (fst (broadcastToClients
           (JObj (spread [(''type'', JStr ''sensor-data'')] (sensorData message now))) ?s1))"
    by (rule quiet_after [of ?s1]) simp_all
  then show ?thesis
    by (auto simp: handleSensorData_def Let_def intro: quiet_trans)
qed

lemma quiet_handleDeviceInfo [simp]: "quiet s (handleDeviceInfo message now s)"
  unfolding handleDeviceInfo_def Let_def
  by (rule quiet_after [OF _ _ _ quiet_broadcast]) simp_all

lemma quiet_handleStatusUpdate [simp]: "quiet s (handleStatusUpdate message now s)"
  unfolding handleStatusUpdate_def Let_def
  by (auto intro!: quiet_after [OF _ _ _ quiet_broadcast] quiet_after [OF _ _ _ quiet_logger])

lemma quiet_handleESP32Message [simp]: "quiet s (handleESP32Message data err now s)"
proof -
  let ?s0 = "s\<lparr>esp32Status := (esp32Status s)\<lparr>lastSeen := Some now\<rparr>\<rparr>"
  have "quiet ?s0 (handleESP32Message data err now s)"
    by (simp add: handleESP32Message_def Let_def
        split: frame.splits outcome.splits jsval.splits)
  then show ?thesis
    by (rule quiet_after [rotated 3]) simp_all
qed

lemma quiet_handleClientMessage [simp]: "quiet s (handleClientMessage ws userId data found now s)"
proof -
  have a: "quiet s (s\<lparr>sockets := f\<rparr>)" for f
    by (rule quiet_same) simp_all
  have g: "quiet s (handleGetSensorData userId message found s)" for message
    by (auto simp: handleGetSensorData_def Let_def split: outcome.splits
        intro: quiet_trans [OF quiet_logger quiet_sendToUser])
  have c: "quiet s (handleControlESP32 userId message now s)" for message
    by (auto simp: handleControlESP32_def Let_def split: option.splits
        intro!: quiet_trans [OF quiet_sendToESP32 quiet_sendToUser]
                quiet_trans [OF quiet_trans [OF quiet_sendToESP32 quiet_sendToUser] quiet_logger])
  show ?thesis
    by (simp add: handleClientMessage_def Let_def a g c
        split: outcome.splits jsval.splits sum.splits)
qed

lemma heartbeat_loop_nextHandle [simp]: "nextHandle (heartbeat_loop cs s) = nextHandle s"
  by (induction cs s rule: heartbeat_loop.induct) (simp_all add: logger_def)

lemma quiet_heartbeat [simp]: "quiet s (heartbeat s)"
  by (rule quiet_same) (simp_all add: heartbeat_def Let_def split: option.splits)

lemma quiet_checkESP32Status [simp]: "quiet s (checkESP32Status now s)"
  unfolding checkESP32Status_def
  by (auto split: option.splits intro!: quiet_after [OF _ _ _ quiet_broadcast])

lemma quiet_handleESP32Disconnect [simp]: "quiet s (handleESP32Disconnect now s)"
  unfolding handleESP32Disconnect_def
  by (rule quiet_after [OF _ _ _ quiet_broadcast]) simp_all

lemma quiet_handleUpgrade [simp]: "quiet s (snd (handleUpgrade cfg req s))"
proof -
  have "quiet s (snd (verifyClient cfg req s))"
    by (simp add: verifyClient_def Let_def split: option.splits list.splits outcome.splits)
  then show ?thesis
    by (cases "verifyClient cfg req s")
       (auto simp: handleUpgrade_def split: option.splits sum.splits
             intro: quiet_trans [OF _ quiet_logger])
qed


lemma set_map_set: "set (map_set k v kvs) \<subseteq> insert (k, v) (set kvs)"
  by (induction kvs) (auto split: if_splits)

lemma map_fst_map_set:
  "map fst (map_set k v kvs) = (if k \<in> fst ` set kvs then map fst kvs else map fst kvs @ [k])"
  by (induction kvs) (auto simp: rev_image_eqI)

lemma distinct_keys_map_set:
  "distinct (map fst kvs) \<Longrightarrow> distinct (map fst (map_set k v kvs))"
  by (simp add: map_fst_map_set)

lemma values_map_set: "snd ` set (map_set k v kvs) \<subseteq> insert v (snd ` set kvs)"
  using set_map_set [of k v kvs] by force

lemma distinct_values_map_set:
  "distinct (map snd kvs) \<Longrightarrow> v \<notin> snd ` set kvs \<Longrightarrow> distinct (map snd (map_set k v kvs))"
proof (induction kvs)
  case Nil
  then show ?case by simp
next
  case (Cons a kvs)
  obtain k' v' where a: "a = (k', v')" by (cases a)
  have "v' \<notin> snd ` set (map_set k v kvs)"
    using values_map_set [of k v kvs] Cons.prems unfolding a by auto
  then show ?case
    using Cons unfolding a by auto
qed

lemma registry_invI:
  assumes "distinct (map fst (clients s))" "distinct (map snd (clients s))"
    and "\<And>h. h \<in> snd ` set (clients s) \<Longrightarrow> h < nextHandle s"
    and "\<And>d. esp32Client s = Some d \<Longrightarrow> d < nextHandle s \<and> d \<notin> snd ` set (clients s)"
  shows "registry_inv s"
  unfolding registry_inv_def registry_ok_def using assms by blast

lemma registry_invD:
  assumes "registry_inv s"
  shows "distinct (map fst (clients s))" "distinct (map snd (clients s))"
    and "h \<in> snd ` set (clients s) \<Longrightarrow> h < nextHandle s"
    and "esp32Client s = Some d \<Longrightarrow> d < nextHandle s \<and> d \<notin> snd ` set (clients s)"
  using assms unfolding registry_inv_def registry_ok_def by blast+

lemma registry_inv_cong:
  "clients s' = clients s \<Longrightarrow> nextHandle s' = nextHandle s \<Longrightarrow>
   esp32Client s' = esp32Client s \<Longrightarrow> registry_inv s \<Longrightarrow> registry_inv s'"
  unfolding registry_inv_def registry_ok_def by simp

lemma registry_inv_device:
  assumes "registry_inv s"
  shows "registry_inv (handleESP32Connection (nextHandle s) now (new_connection s))"
proof -
  let ?ws = "nextHandle s"
  let ?s0 = "new_connection s"
  let ?s1 = "case esp32Client ?s0 of
                  None \<Rightarrow> ?s0
                | Some old \<Rightarrow>
                    if readyState (sockets ?s0 old) = OPEN
                    then (logger LogWarn ''ESP32 already connected, closing previous connection'' ?s0)
                           \<lparr>sockets := (sockets ?s0)(old := ws_close (sockets ?s0 old))\<rparr>
                    else ?s0"
  let ?s2 = "?s1\<lparr>esp32Client := Some ?ws,
                  esp32Status := (esp32Status ?s1)\<lparr>connected := True, lastSeen := Some now\<rparr>\<rparr>"
  have s1: "clients ?s1 = clients s" "nextHandle ?s1 = Suc ?ws"
    by (simp_all add: new_connection_def split: option.splits)
  have "registry_inv ?s2"
  proof (rule registry_invI)
    show "distinct (map fst (clients ?s2))" "distinct (map snd (clients ?s2))"
      using registry_invD(1,2) [OF assms] s1 by simp_all
    show "h < nextHandle ?s2" if "h \<in> snd ` set (clients ?s2)" for h
      using registry_invD(3) [OF assms, of h] that s1 by simp
    show "d < nextHandle ?s2 \<and> d \<notin> snd ` set (clients ?s2)" if "esp32Client ?s2 = Some d" for d
      using registry_invD(3) [OF assms, of d] that s1 by auto
  qed
  then show ?thesis
    unfolding handleESP32Connection_def Let_def
    by (rule quiet_inv [OF quiet_trans [OF quiet_sendToESP32 quiet_broadcast]])
qed

lemma registry_inv_client:
  assumes "registry_inv s"
    and "handleClientConnection (nextHandle s) userId now (new_connection s) = Inr s'"
  shows "registry_inv s'"
proof -
  let ?ws = "nextHandle s"
  let ?cs = "map_set userId ?ws (clients s)"
  have fresh: "?ws \<notin> snd ` set (clients s)"
    using registry_invD(3) [OF assms(1), of ?ws] by blast
  obtain sk where sk: "ws_send (JObj [(''type'', JStr ''connection''), (''status'', JStr ''authenticated''),
                          (''userId'', JStr userId),
                          (''esp32Status'', status_json (esp32Status (new_connection s))),
                          (''timestamp'', JIso now)]) (sockets (new_connection s) ?ws) = Inr sk"
    using assms(2) by (auto simp: handleClientConnection_def split: sum.splits)
  have c1: "clients s' = ?cs" and c2: "nextHandle s' = Suc ?ws"
    and c3: "esp32Client s' = esp32Client s"
    using assms(2) sk
    by (auto simp: handleClientConnection_def addClient_def new_connection_def Let_def
        split: option.splits)
  have sub: "snd ` set ?cs \<subseteq> insert ?ws (snd ` set (clients s))"
    by (rule values_map_set)
  show ?thesis
  proof (rule registry_invI)
    show "distinct (map fst (clients s'))"
      unfolding c1 using registry_invD(1) [OF assms(1)] by (rule distinct_keys_map_set)
    show "distinct (map snd (clients s'))"
      unfolding c1 using registry_invD(2) [OF assms(1)] fresh by (rule distinct_values_map_set)
    show "h < nextHandle s'" if "h \<in> snd ` set (clients s')" for h
    proof -
      have "h \<in> insert ?ws (snd ` set (clients s))"
        using that sub unfolding c1 by (rule subsetD [rotated])
      then have "h = ?ws \<or> h \<in> snd ` set (clients s)"
        by (simp only: insert_iff)
      then show ?thesis
      proof
        assume "h = ?ws"
        then show ?thesis unfolding c2 by simp
      next
        assume "h \<in> snd ` set (clients s)"
        then have "h < ?ws" by (rule registry_invD(3) [OF assms(1)])
        then show ?thesis unfolding c2 by simp
      qed
    qed
    show "d < nextHandle s' \<and> d \<notin> snd ` set (clients s')" if "esp32Client s' = Some d" for d
    proof -
      have e: "esp32Client s = Some d"
        using that unfolding c3 .
      have d1: "d < ?ws" and d2: "d \<notin> snd ` set (clients s)"
        using registry_invD(4) [OF assms(1) e] by (rule conjunct1, rule conjunct2)
      have "d \<noteq> ?ws"
        using d1 by simp
      with d2 have "d \<notin> insert ?ws (snd ` set (clients s))"
        by (simp only: insert_iff de_Morgan_disj not_False_eq_True simp_thms)
      then have "d \<notin> snd ` set ?cs"
        using sub by (rule contra_subsetD [rotated])
      then show ?thesis
        unfolding c1 c2 using d1 by simp
    qed
  qed
qed

lemma registry_inv_fire:
  assumes "registry_inv s" "fire cfg e s = Inr s'"
  shows "registry_inv s'"
proof (cases e)
  case (Upgrade req now)
  obtain r s1 where hu: "handleUpgrade cfg req s = (r, s1)"
    by (cases "handleUpgrade cfg req s")
  then have q: "quiet s s1"
    using quiet_handleUpgrade [of s cfg req] by simp
  then have i1: "registry_inv s1"
    using assms(1) quiet_inv by blast
  show ?thesis
  proof (cases r)
    case (Connection user)
    with Upgrade hu assms(2)
    have oc: "on_connection req user (nextHandle s1) now (new_connection s1) = Inr s'"
      by simp
    have closed: "registry_inv (s0\<lparr>sockets := f\<rparr>)" if "registry_inv s0" for s0 f
      using that by (simp add: registry_inv_def registry_ok_def)
    have nc: "registry_inv (new_connection s1)"
    proof (rule registry_invI)
      show "distinct (map fst (clients (new_connection s1)))"
        "distinct (map snd (clients (new_connection s1)))"
        using registry_invD(1,2) [OF i1] by (simp_all add: new_connection_def)
      show "h < nextHandle (new_connection s1)" if "h \<in> snd ` set (clients (new_connection s1))" for h
        using registry_invD(3) [OF i1, of h] that by (simp add: new_connection_def)
      show "d < nextHandle (new_connection s1) \<and> d \<notin> snd ` set (clients (new_connection s1))"
        if "esp32Client (new_connection s1) = Some d" for d
        using registry_invD(4) [OF i1, of d] that by (simp add: new_connection_def)
    qed
    from oc show ?thesis
      using registry_inv_device [OF i1] registry_inv_client [OF i1] closed [OF nc]
      by (auto simp: on_connection_def split: option.splits if_splits list.splits)
  next
    case Unauthorized
    with Upgrade hu assms(2) i1 show ?thesis by auto
  next
    case (UpgradeFailed err)
    with Upgrade hu assms(2) i1 show ?thesis
      by (auto intro: quiet_inv [OF quiet_logger])
  qed
next
  case (DeviceMessage data err now)
  with assms show ?thesis by (auto intro: quiet_inv [OF quiet_handleESP32Message])
next
  case (DevicePong now)
  with assms show ?thesis by (auto intro: registry_inv_cong [OF _ _ _ assms(1)])
next
  case (DeviceClose ws now)
  have "quiet s (handleESP32Disconnect now
            (s\<lparr>sockets := (sockets s)(ws := (sockets s ws)\<lparr>readyState := CLOSED\<rparr>)\<rparr>))"
    by (rule quiet_after [OF _ _ _ quiet_handleESP32Disconnect]) simp_all
  with DeviceClose assms show ?thesis by (auto intro: quiet_inv)
next
  case (DeviceError err now)
  with assms show ?thesis
    by (auto intro: quiet_inv [OF quiet_trans [OF quiet_logger quiet_handleESP32Disconnect]])
next
  case (ClientMessage ws userId data found now)
  with assms show ?thesis by (auto intro: quiet_inv [OF quiet_handleClientMessage])
next
  case (ClientPong ws)
  with assms show ?thesis by (auto intro: registry_inv_cong [OF _ _ _ assms(1)])
next
  case (ClientClose ws userId)
  have "quiet s (removeClient userId
            (s\<lparr>sockets := (sockets s)(ws := (sockets s ws)\<lparr>readyState := CLOSED\<rparr>)\<rparr>))"
    by (rule quiet_after [OF _ _ _ quiet_removeClient]) simp_all
  with ClientClose assms show ?thesis by (auto intro: quiet_inv)
next
  case (ClientError err userId)
  with assms show ?thesis
    by (auto intro: quiet_inv [OF quiet_trans [OF quiet_logger quiet_removeClient]])
next
  case HeartbeatTick
  with assms show ?thesis by (auto intro: quiet_inv [OF quiet_heartbeat])
next
  case (StatusCheckTick now)
  with assms show ?thesis by (auto intro: quiet_inv [OF quiet_checkESP32Status])
next
  case (Transport ws rs err)
  with assms show ?thesis by (auto intro: registry_inv_cong [OF _ _ _ assms(1)])
qed

text \<open>
  In every state the service reaches, the registry has no key twice and no socket under
  two keys, and the device's socket is no client's: the conditions under which the
  statements on sends and heartbeats are made.
\<close>

lemma reachable_registry: "reachable cfg s \<Longrightarrow> registry_inv s"
proof (induction rule: reachable.induct)
  case start
  then show ?case
    by (simp add: registry_inv_def registry_ok_def constructor_def)
next
  case (step s e s')
  then show ?case using registry_inv_fire by blast
qed

section \<open>The device slot after a replaced socket closes\<close>

lemma handleESP32Connection_nextHandle [simp]:
  "nextHandle (handleESP32Connection ws now s) = nextHandle s"
  by (simp add: handleESP32Connection_def Let_def split: option.splits)

lemma handleESP32Connection_readyState:
  "readyState (sockets (handleESP32Connection ws now s) h) =
     (if esp32Client s = Some h \<and> readyState (sockets s h) = OPEN then CLOSING
      else readyState (sockets s h))"
  by (simp add: handleESP32Connection_def Let_def ws_close_def split: option.splits)

lemma handleESP32Disconnect_frame [simp]:
  "nextHandle (handleESP32Disconnect now s) = nextHandle s"
  "readyState (sockets (handleESP32Disconnect now s) h) = readyState (sockets s h)"
  by (simp_all add: handleESP32Disconnect_def)

lemma device_swapped_eval:
  "esp32Client device_swapped = Some 1" "nextHandle device_swapped = 2"
  "readyState (sockets device_swapped 0) = CLOSING"
  "readyState (sockets device_swapped (Suc 0)) = OPEN"
  "connected (esp32Status device_swapped)"
  by (simp_all add: device_swapped_def handleESP32Connection_status
      handleESP32Connection_readyState new_connection_def device_online_state new_socket_def)

lemma device_dropped_eval:
  "esp32Client device_dropped = None" "nextHandle device_dropped = 2"
  "\<not> connected (esp32Status device_dropped)"
  "readyState (sockets device_dropped 0) = CLOSED"
  "readyState (sockets device_dropped (Suc 0)) = OPEN"
  by (simp_all add: device_dropped_def device_swapped_eval)

lemma two_devices_eval:
  "esp32Client two_devices = Some 2" "connected (esp32Status two_devices)"
  "readyState (sockets two_devices (Suc 0)) = OPEN"
  "readyState (sockets two_devices 2) = OPEN"
  by (simp_all add: two_devices_def handleESP32Connection_status
      handleESP32Connection_readyState new_connection_def device_dropped_eval new_socket_def)

text \<open>
  Claim C2, at events the service can receive: three upgrades on the device path and,
  after the second, the close event of the first device's socket. The second
  registration closes socket 0 and holds socket 1. The close event of socket 0 then runs
  the disconnect handler, which empties the slot and clears \<open>connected\<close> although
  socket 1 is open. The third registration finds the slot empty and closes nothing: the
  sockets 1 and 2 of two devices are open at once, and only socket 2 is in the slot.
\<close>

theorem replaced_socket_close_clears_slot:
  "fire production (Upgrade device_request 2000) device_online = Inr device_swapped \<and>
   esp32Client device_swapped = Some 1 \<and>
   readyState (sockets device_swapped 0) = CLOSING \<and>
   readyState (sockets device_swapped 1) = OPEN \<and>
   fire production (DeviceClose 0 2100) device_swapped = Inr device_dropped \<and>
   esp32Client device_dropped = None \<and> \<not> connected (esp32Status device_dropped) \<and>
   readyState (sockets device_dropped 1) = OPEN \<and>
   fire production (Upgrade device_request 3000) device_dropped = Inr two_devices \<and>
   reachable production two_devices \<and>
   esp32Client two_devices = Some 2 \<and>
   readyState (sockets two_devices 1) = OPEN \<and>
   readyState (sockets two_devices 2) = OPEN"
proof -
  have f1: "fire production (Upgrade device_request 2000) device_online = Inr device_swapped"
    by (simp add: handleUpgrade_def on_connection_def device_request_def device_swapped_def
        device_online_state)
  have f2: "fire production (DeviceClose 0 2100) device_swapped = Inr device_dropped"
    by (simp add: device_dropped_def)
  have f3: "fire production (Upgrade device_request 3000) device_dropped = Inr two_devices"
    by (simp add: handleUpgrade_def on_connection_def device_request_def two_devices_def
        device_dropped_eval)
  have "reachable production two_devices"
    using device_online_reachable f1 f2 f3 reachable.step by blast
  then show ?thesis
    using f1 f2 f3 by (simp add: device_swapped_eval device_dropped_eval two_devices_eval)
qed

end
